theory Spec2Isabelle
  imports Complex_Main "HOL-Library.AList"
begin

section \<open>Values shared by all tools\<close>

text \<open>
  A JavaScript \<open>Error\<close> carries a class and a message. The three adapter classes that
  \<open>flow-tools.ts\<close> imports from \<open>errors.js\<close> are kept apart from every other error.
\<close>

datatype error_class = GenericError | DeviceNotFoundError | DeviceOfflineError | AdbNotInstalledError

datatype js_error = JsError (err_class: error_class) (message: string)

text \<open>Argument bags (\<open>Record<string, unknown>\<close>) are association lists of JSON values.\<close>

datatype json = JUndefined | JNull | JBool bool | JNum int | JStr string

type_synonym args = "(string \<times> json) list"

text \<open>
  What a handler resolves to: an object with an optional \<open>text\<close> and an optional
  \<open>image\<close> (\<open>data\<close>, \<open>mimeType\<close>).
\<close>

datatype response = Response (resp_text: "string option") (resp_image: "(string \<times> string) option")

abbreviation text_response :: "string \<Rightarrow> response" where
  "text_response t \<equiv> Response (Some t) None"

text \<open>\<open>export const MAX_RECURSION_DEPTH = 3\<close> (context.ts).\<close>

definition MAX_RECURSION_DEPTH :: nat where
  "MAX_RECURSION_DEPTH = 3"

text \<open>Decimal rendering of numbers inside template strings.\<close>

fun string_of_nat :: "nat \<Rightarrow> string" where
  "string_of_nat n =
     (if n < 10 then [''0123456789'' ! n]
      else string_of_nat (n div 10) @ [''0123456789'' ! (n mod 10)])"

declare string_of_nat.simps [simp del]

definition string_of_int :: "int \<Rightarrow> string" where
  "string_of_int i = (if i < 0 then CHR ''-'' # string_of_nat (nat (- i)) else string_of_nat (nat i))"

definition recursion_error :: js_error where
  "recursion_error = JsError GenericError
     (''Maximum recursion depth ('' @ string_of_nat MAX_RECURSION_DEPTH @
      '') exceeded. Nested batch_commands/run_flow calls are limited to prevent stack overflow.'')"

section \<open>Tool registry (registry.ts)\<close>

record Tool =
  name :: string
  description :: string

record 'h ToolDefinition =
  tool :: Tool
  handler :: 'h

text \<open>
  The two module-level \<open>Map\<close>s. A JavaScript \<open>Map\<close> keeps insertion order and
  \<open>set\<close> on an existing key replaces the value in place, which is \<open>AList.update\<close>.
\<close>

record 'h registry =
  toolMap :: "(string \<times> 'h ToolDefinition) list"
  aliasMap :: "(string \<times> string) list"

definition empty_registry :: "'h registry" where
  "empty_registry = \<lparr>toolMap = [], aliasMap = []\<rparr>"

definition registerTools :: "'h ToolDefinition list \<Rightarrow> 'h registry \<Rightarrow> 'h registry" where
  "registerTools defs reg =
     reg\<lparr>toolMap := foldl (\<lambda>m d. AList.update (name (tool d)) d m) (toolMap reg) defs\<rparr>"

definition registerAliases :: "(string \<times> string) list \<Rightarrow> 'h registry \<Rightarrow> 'h registry" where
  "registerAliases aliases reg =
     reg\<lparr>aliasMap := foldl (\<lambda>m (alias, canonical). AList.update alias canonical m) (aliasMap reg) aliases\<rparr>"

definition getTools :: "'h registry \<Rightarrow> Tool list" where
  "getTools reg = map (\<lambda>d. tool d) (map snd (toolMap reg))"

text \<open>
  \<open>if (direct)\<close> holds for every stored definition (objects are truthy);
  \<open>if (canonical)\<close> fails for a missing alias and for the empty string.
\<close>

definition getHandler :: "'h registry \<Rightarrow> string \<Rightarrow> 'h option" where
  "getHandler reg nm =
     (case map_of (toolMap reg) nm of
        Some direct \<Rightarrow> Some (handler direct)
      | None \<Rightarrow>
          (case map_of (aliasMap reg) nm of
             Some canonical \<Rightarrow>
               (if canonical \<noteq> [] then map_option handler (map_of (toolMap reg) canonical) else None)
           | None \<Rightarrow> None))"

section \<open>Dispatcher (index.ts)\<close>

text \<open>
  A handler is run on the world \<open>'w\<close> (devices, caches, clock) and either throws or
  resolves. The dispatcher keeps a ghost log of the handlers it invoked, so that
  "no handler was invoked" can be stated.
\<close>

type_synonym 'w handler_fn = "args \<Rightarrow> nat \<Rightarrow> 'w \<Rightarrow> (js_error + response) \<times> 'w"

datatype invocation = Invoked string args nat

definition handleTool ::
  "'w handler_fn registry \<Rightarrow> string \<Rightarrow> args \<Rightarrow> nat \<Rightarrow> 'w \<times> invocation list
     \<Rightarrow> (js_error + response) \<times> ('w \<times> invocation list)" where
  "handleTool reg nm a depth s =
     (if depth > MAX_RECURSION_DEPTH then (Inl recursion_error, s)
      else
        (case getHandler reg nm of
           None \<Rightarrow> (Inl (JsError GenericError (''Unknown tool: '' @ nm)), s)
         | Some h \<Rightarrow>
             (case h a depth (fst s) of
                (r, w') \<Rightarrow> (r, (w', snd s @ [Invoked nm a depth])))))"

section \<open>Shared tool context (context.ts)\<close>

text \<open>
  What the composite handlers reach through \<open>ctx\<close>: the dispatcher, the hierarchy capture
  and the active platform of the device manager. The record also carries the runtime
  functions the handlers call (\<open>Date.now\<close>, the \<open>setTimeout\<close> pause,
  \<open>JSON.stringify\<close>, and \<open>String_slice n\<close> for \<open>text.slice(0, n)\<close>) and \<open>findElements\<close>
  of \<open>ui-parser.js\<close>, which is imported by the handlers and is not among the sources.
  Reading the clock may change the world: successive readings are whatever the world
  yields. Strings are held as UTF-8 bytes while \<open>slice\<close> counts UTF-16 units, so the cut is
  left to the runtime; on ASCII text it is \<open>take n\<close>.
\<close>

record ('w, 'e) ToolContext =
  ctx_handleTool :: "string \<Rightarrow> args \<Rightarrow> nat \<Rightarrow> 'w \<Rightarrow> (js_error + response) \<times> 'w"
  ctx_getElementsForPlatform :: "string option \<Rightarrow> 'w \<Rightarrow> (js_error + 'e list) \<times> 'w"
  ctx_getCurrentPlatform :: "'w \<Rightarrow> string option"
  Date_now :: "'w \<Rightarrow> int \<times> 'w"
  setTimeout :: "nat \<Rightarrow> 'w \<Rightarrow> 'w"
  JSON_stringify :: "response \<Rightarrow> string"
  String_slice :: "nat \<Rightarrow> string \<Rightarrow> string"
  findElements :: "'e list \<Rightarrow> string \<Rightarrow> 'e list"

text \<open>
  The composite handlers run on the world paired with a ghost log of the calls they make
  to \<open>ctx.handleTool\<close>. The tag says which call site issued the call: the attempt of a step
  or command, the swipe of a scroll fallback, or the retry after that swipe.
\<close>

datatype call_kind = Attempt | FallbackSwipe | FallbackRetry

datatype call = Call (call_kind: call_kind) (call_name: string) (call_args: args) (call_depth: nat)

type_synonym 'w fstate = "'w \<times> call list"

definition dispatch ::
  "('w, 'e) ToolContext \<Rightarrow> call_kind \<Rightarrow> string \<Rightarrow> args \<Rightarrow> nat \<Rightarrow> 'w fstate
     \<Rightarrow> (js_error + response) \<times> 'w fstate" where
  "dispatch ctx k nm a d s =
     (case ctx_handleTool ctx nm a d (fst s) of (r, w') \<Rightarrow> (r, (w', snd s @ [Call k nm a d])))"

definition now :: "('w, 'e) ToolContext \<Rightarrow> 'w fstate \<Rightarrow> int \<times> 'w fstate" where
  "now ctx s = (case Date_now ctx (fst s) of (t, w') \<Rightarrow> (t, (w', snd s)))"

definition pause :: "('w, 'e) ToolContext \<Rightarrow> nat \<Rightarrow> 'w fstate \<Rightarrow> 'w fstate" where
  "pause ctx ms s = (setTimeout ctx ms (fst s), snd s)"

definition getElements ::
  "('w, 'e) ToolContext \<Rightarrow> string option \<Rightarrow> 'w fstate \<Rightarrow> (js_error + 'e list) \<times> 'w fstate" where
  "getElements ctx plat s =
     (case ctx_getElementsForPlatform ctx plat (fst s) of (r, w') \<Rightarrow> (r, (w', snd s)))"

text \<open>
  \<open>typeof result === "object" && result !== null && "text" in result ? result.text :
  JSON.stringify(result)\<close>.
\<close>

definition result_text :: "('w, 'e) ToolContext \<Rightarrow> response \<Rightarrow> string" where
  "result_text ctx r = (case resp_text r of Some t \<Rightarrow> t | None \<Rightarrow> JSON_stringify ctx r)"

section \<open>String helpers\<close>

fun startsWith :: "string \<Rightarrow> string \<Rightarrow> bool" where
  "startsWith s [] = True"
| "startsWith [] (p # ps) = False"
| "startsWith (c # cs) (p # ps) = (c = p \<and> startsWith cs ps)"

text \<open>\<open>String.prototype.includes\<close>: the pattern occurs at some position.\<close>

fun str_includes :: "string \<Rightarrow> string \<Rightarrow> bool" where
  "str_includes [] sub = (sub = [])"
| "str_includes (c # cs) sub = (startsWith (c # cs) sub \<or> str_includes cs sub)"

fun join :: "string \<Rightarrow> string list \<Rightarrow> string" where
  "join sep [] = []"
| "join sep [x] = x"
| "join sep (x # y # ys) = x @ sep @ join sep (y # ys)"

text \<open>Truthiness of an optional string: present and not empty.\<close>

definition truthy :: "string option \<Rightarrow> bool" where
  "truthy v = (case v of None \<Rightarrow> False | Some t \<Rightarrow> t \<noteq> [])"

text \<open>The em dash of the report lines, as its three UTF-8 bytes.\<close>

definition em_dash :: string where
  "em_dash = [CHR 0xE2, CHR 0x80, CHR 0x94]"

section \<open>Flow engine (flow-tools.ts)\<close>

definition FLOW_ALLOWED_ACTIONS :: "string list" where
  "FLOW_ALLOWED_ACTIONS =
     [''tap'', ''swipe'', ''input_text'', ''press_key'', ''wait'', ''wait_for_element'',
      ''screenshot'', ''analyze_screen'', ''assert_visible'', ''assert_not_exists'',
      ''find_and_tap'', ''find_element'', ''open_url'']"

definition FLOW_MAX_STEPS :: nat where
  "FLOW_MAX_STEPS = 20"

definition FLOW_MAX_DURATION :: int where
  "FLOW_MAX_DURATION = 60000"

definition FLOW_MAX_REPEAT :: int where
  "FLOW_MAX_REPEAT = 10"

record FlowRepeat =
  rep_times :: "int option"
  until_found :: "string option"
  until_not_found :: "string option"

record FlowStep =
  action :: string
  step_args :: "args option"
  if_not_found :: "string option"
  repeat_spec :: "FlowRepeat option"
  on_error :: "string option"
  step_label :: "string option"

record FlowStepResult =
  r_step :: nat
  r_action :: string
  r_label :: "string option"
  r_success :: bool
  r_message :: string
  r_durationMs :: int

definition formatFlowResults :: "FlowStepResult list \<Rightarrow> int \<Rightarrow> string" where
  "formatFlowResults results totalMs =
     join [CHR 0x0A]
       ([''Flow completed ('' @ string_of_int totalMs @ ''ms)'', []] @
        map (\<lambda>r. string_of_nat (r_step r) @ ''. '' @ r_action r @
                 (case r_label r of
                    None \<Rightarrow> []
                  | Some l \<Rightarrow> if l \<noteq> [] then '' ('' @ l @ '')'' else []) @ '': '' @
                 (if r_success r then ''OK'' else ''FAIL'') @ '' '' @ em_dash @ '' '' @
                 r_message r @ '' ('' @ string_of_int (r_durationMs r) @ ''ms)'')
            results)"

definition mk_result :: "nat \<Rightarrow> FlowStep \<Rightarrow> bool \<Rightarrow> string \<Rightarrow> int \<Rightarrow> FlowStepResult" where
  "mk_result i st ok m dur =
     \<lparr>r_step = i + 1, r_action = action st, r_label = step_label st,
      r_success = ok, r_message = m, r_durationMs = dur\<rparr>"

definition platform_json :: "string option \<Rightarrow> json" where
  "platform_json cur = (case cur of None \<Rightarrow> JUndefined | Some p \<Rightarrow> JStr p)"

text \<open>\<open>{ ...step.args, platform: currentPlatform }\<close>: the key keeps its place when present.\<close>

definition stepArgs :: "string option \<Rightarrow> FlowStep \<Rightarrow> args" where
  "stepArgs cur st =
     AList.update ''platform'' (platform_json cur) (case step_args st of None \<Rightarrow> [] | Some a \<Rightarrow> a)"

definition onError :: "FlowStep \<Rightarrow> string" where
  "onError st = (case on_error st of None \<Rightarrow> ''stop'' | Some v \<Rightarrow> v)"

definition repeatTimes :: "FlowStep \<Rightarrow> int" where
  "repeatTimes st =
     (case repeat_spec st of
        None \<Rightarrow> 1
      | Some r \<Rightarrow> (case rep_times r of
                     None \<Rightarrow> 1
                   | Some t \<Rightarrow> if t \<noteq> 0 then min t FLOW_MAX_REPEAT else 1))"

definition untilFound :: "FlowStep \<Rightarrow> string option" where
  "untilFound st = (case repeat_spec st of None \<Rightarrow> None | Some r \<Rightarrow> until_found r)"

definition untilNotFound :: "FlowStep \<Rightarrow> string option" where
  "untilNotFound st = (case repeat_spec st of None \<Rightarrow> None | Some r \<Rightarrow> until_not_found r)"

definition hasRepeatCondition :: "FlowStep \<Rightarrow> bool" where
  "hasRepeatCondition st = (truthy (untilFound st) \<or> truthy (untilNotFound st))"

definition maxIterations :: "FlowStep \<Rightarrow> int" where
  "maxIterations st = (if hasRepeatCondition st then FLOW_MAX_REPEAT else repeatTimes st)"

definition isNotFound :: "js_error \<Rightarrow> bool" where
  "isNotFound e = (str_includes (message e) ''not found'' \<or> str_includes (message e) ''No element'')"

definition is_backend_unavailable :: "js_error \<Rightarrow> bool" where
  "is_backend_unavailable e =
     (err_class e = DeviceNotFoundError \<or> err_class e = DeviceOfflineError \<or>
      err_class e = AdbNotInstalledError)"

text \<open>How one pass through the body of the repeat loop ends.\<close>

datatype iter_outcome =
    Continue "FlowStepResult option"
  | Break "FlowStepResult option"
  | ReturnFlow FlowStepResult

text \<open>
  The \<open>scroll_down\<close>/\<open>scroll_up\<close> branch: one \<open>try\<close> around the swipe, the pause and the
  retry; its \<open>catch\<close> records the failure, and every path then leaves the loop.
\<close>

definition scroll_failed ::
  "('w, 'e) ToolContext \<Rightarrow> nat \<Rightarrow> FlowStep \<Rightarrow> int \<Rightarrow> string \<Rightarrow> js_error \<Rightarrow> 'w fstate
     \<Rightarrow> FlowStepResult option \<times> 'w fstate" where
  "scroll_failed ctx i st stepStart policy retryErr s =
     (case now ctx s of
        (t, s') \<Rightarrow>
          (Some (mk_result i st False (message retryErr @ '' (after '' @ policy @ '')'') (t - stepStart)), s'))"

definition scroll_fallback ::
  "('w, 'e) ToolContext \<Rightarrow> nat \<Rightarrow> string option \<Rightarrow> nat \<Rightarrow> FlowStep \<Rightarrow> int \<Rightarrow> string \<Rightarrow> 'w fstate
     \<Rightarrow> FlowStepResult option \<times> 'w fstate" where
  "scroll_fallback ctx d cur i st stepStart policy s =
     (case dispatch ctx FallbackSwipe ''swipe''
             [(''direction'', JStr (if policy = ''scroll_down'' then ''up'' else ''down'')),
              (''platform'', platform_json cur)] (d + 1) s of
        (Inl retryErr, s1) \<Rightarrow> scroll_failed ctx i st stepStart policy retryErr s1
      | (Inr swiped, s1) \<Rightarrow>
          (case dispatch ctx FallbackRetry (action st) (stepArgs cur st) (d + 1) (pause ctx 300 s1) of
             (Inl retryErr, s2) \<Rightarrow> scroll_failed ctx i st stepStart policy retryErr s2
           | (Inr retryResult, s2) \<Rightarrow>
               (case now ctx s2 of
                  (t, s3) \<Rightarrow>
                    (Some (mk_result i st True
                             (String_slice ctx 150 (result_text ctx retryResult) @ '' (after '' @ policy @ '')'')
                             (t - stepStart)), s3))))"

text \<open>The \<open>catch (error)\<close> block of the step.\<close>

definition step_catch ::
  "('w, 'e) ToolContext \<Rightarrow> nat \<Rightarrow> string option \<Rightarrow> nat \<Rightarrow> FlowStep \<Rightarrow> int \<Rightarrow> int \<Rightarrow> js_error
     \<Rightarrow> FlowStepResult option \<Rightarrow> 'w fstate \<Rightarrow> iter_outcome \<times> 'w fstate" where
  "step_catch ctx d cur i st stepStart iter error lastResult s =
     (case now ctx s of
        (t, s1) \<Rightarrow>
          (if isNotFound error \<and> truthy (if_not_found st) then
             (case if_not_found st of
                None \<Rightarrow> (Break (Some (mk_result i st False (message error) (t - stepStart))), s1)
              | Some policy \<Rightarrow>
                  (if policy = ''skip'' then
                     (Break (Some (mk_result i st True ''Skipped (element not found)'' (t - stepStart))), s1)
                   else if policy = ''scroll_down'' \<or> policy = ''scroll_up'' then
                     (case scroll_fallback ctx d cur i st stepStart policy s1 of
                        (l, s2) \<Rightarrow> (Break l, s2))
                   else (Break (Some (mk_result i st False (message error) (t - stepStart))), s1)))
           else if onError st = ''retry'' \<and> iter < maxIterations st - 1 then
             (Continue lastResult, pause ctx 300 s1)
           else if onError st = ''stop'' then
             (ReturnFlow (mk_result i st False (message error) (t - stepStart)), s1)
           else (Break (Some (mk_result i st False (message error) (t - stepStart))), s1)))"

text \<open>
  The \<open>try\<close> block of one iteration with its \<open>catch\<close>. A backend-unavailable error of the
  predicate check is thrown again from the inner \<open>catch\<close>; the throw happens inside the
  outer \<open>try\<close>, so it lands in the \<open>catch\<close> of the step, with \<open>lastStepResult\<close> already
  assigned.
\<close>

definition predicate_holds :: "('w, 'e) ToolContext \<Rightarrow> FlowStep \<Rightarrow> 'e list \<Rightarrow> bool" where
  "predicate_holds ctx st elements =
     ((case untilFound st of
         Some u \<Rightarrow> u \<noteq> [] \<and> findElements ctx elements u \<noteq> []
       | None \<Rightarrow> False) \<or>
      (case untilNotFound st of
         Some u \<Rightarrow> u \<noteq> [] \<and> findElements ctx elements u = []
       | None \<Rightarrow> False))"

definition attempt ::
  "('w, 'e) ToolContext \<Rightarrow> nat \<Rightarrow> string option \<Rightarrow> nat \<Rightarrow> FlowStep \<Rightarrow> int
     \<Rightarrow> FlowStepResult option \<Rightarrow> 'w fstate \<Rightarrow> iter_outcome \<times> 'w fstate" where
  "attempt ctx d cur i st iter lastResult s =
     (case now ctx s of
        (stepStart, s1) \<Rightarrow>
          (case dispatch ctx Attempt (action st) (stepArgs cur st) (d + 1) s1 of
             (Inl error, s2) \<Rightarrow> step_catch ctx d cur i st stepStart iter error lastResult s2
           | (Inr result, s2) \<Rightarrow>
               (case now ctx s2 of
                  (t, s3) \<Rightarrow>
                    (let lastResult' = Some (mk_result i st True (String_slice ctx 200 (result_text ctx result)) (t - stepStart))
                     in if hasRepeatCondition st then
                          (case getElements ctx cur s3 of
                             (Inr elements, s4) \<Rightarrow>
                               (if predicate_holds ctx st elements then (Break lastResult', s4)
                                else (Continue lastResult', pause ctx 300 s4))
                           | (Inl condErr, s4) \<Rightarrow>
                               (if is_backend_unavailable condErr
                                then step_catch ctx d cur i st stepStart iter condErr lastResult' s4
                                else (Continue lastResult', pause ctx 300 s4)))
                        else (Continue lastResult', s3)))))"

text \<open>The repeat loop \<open>for (let iter = 0; iter < maxIterations; iter++)\<close>.\<close>

function step_loop ::
  "('w, 'e) ToolContext \<Rightarrow> nat \<Rightarrow> string option \<Rightarrow> int \<Rightarrow> int \<Rightarrow> nat \<Rightarrow> FlowStep \<Rightarrow> int
     \<Rightarrow> FlowStepResult option \<Rightarrow> 'w fstate \<Rightarrow> iter_outcome \<times> 'w fstate" where
  "step_loop ctx d cur flowStart maxDuration i st iter lastResult s =
     (if iter < maxIterations st then
        (case now ctx s of
           (t, s1) \<Rightarrow>
             (if t - flowStart > maxDuration then (Break lastResult, s1)
              else
                (case attempt ctx d cur i st iter lastResult s1 of
                   (Continue l, s2) \<Rightarrow> step_loop ctx d cur flowStart maxDuration i st (iter + 1) l s2
                 | (Break l, s2) \<Rightarrow> (Break l, s2)
                 | (ReturnFlow r, s2) \<Rightarrow> (ReturnFlow r, s2))))
      else (Break lastResult, s))"
  by pat_completeness auto
termination
  by (relation "measure (\<lambda>(ctx, d, cur, flowStart, maxDuration, i, st, iter, lastResult, s).
                  nat (maxIterations st - iter))") auto

declare step_loop.simps [simp del]

text \<open>
  One step of the flow: the repeat loop, then \<open>results.push\<close> and the decision whether the
  handler returns. The flag is \<open>True\<close> when the handler returns at this step. The loop
  never ends on \<open>Continue\<close>; that case is there for completeness.
\<close>

definition run_step ::
  "('w, 'e) ToolContext \<Rightarrow> nat \<Rightarrow> string option \<Rightarrow> int \<Rightarrow> int \<Rightarrow> nat \<Rightarrow> FlowStep
     \<Rightarrow> FlowStepResult list \<Rightarrow> 'w fstate \<Rightarrow> (bool \<times> FlowStepResult list) \<times> 'w fstate" where
  "run_step ctx d cur flowStart maxDuration i st results s =
     (case step_loop ctx d cur flowStart maxDuration i st 0 None s of
        (ReturnFlow r, s') \<Rightarrow> ((True, results @ [r]), s')
      | (Continue l, s') \<Rightarrow> ((False, results), s')
      | (Break None, s') \<Rightarrow> ((False, results), s')
      | (Break (Some r), s') \<Rightarrow>
          (if \<not> r_success r \<and> onError st = ''stop'' then ((True, results @ [r]), s')
           else ((False, results @ [r]), s')))"

text \<open>The loop over the steps, from step \<open>i\<close> on, with the results gathered so far.\<close>

fun flow_loop ::
  "('w, 'e) ToolContext \<Rightarrow> nat \<Rightarrow> string option \<Rightarrow> int \<Rightarrow> int \<Rightarrow> nat \<Rightarrow> FlowStep list
     \<Rightarrow> FlowStepResult list \<Rightarrow> 'w fstate \<Rightarrow> FlowStepResult list \<times> 'w fstate" where
  "flow_loop ctx d cur flowStart maxDuration i [] results s = (results, s)"
| "flow_loop ctx d cur flowStart maxDuration i (st # rest) results s =
     (case now ctx s of
        (t, s1) \<Rightarrow>
          (if t - flowStart > maxDuration then
             (results @ [mk_result i st False
                           (''Flow timeout ('' @ string_of_int maxDuration @ ''ms exceeded)'') 0], s1)
           else
             (case run_step ctx d cur flowStart maxDuration i st results s1 of
                ((True, results'), s2) \<Rightarrow> (results', s2)
              | ((False, results'), s2) \<Rightarrow>
                  flow_loop ctx d cur flowStart maxDuration (i + 1) rest results' s2)))"

record FlowArgs =
  fa_platform :: "string option"
  fa_steps :: "FlowStep list option"
  fa_maxDuration :: "int option"

text \<open>
  What the handler returns before it is rendered: a plain message (the three early
  returns), or the gathered results with the total elapsed time.
\<close>

datatype flow_return = FlowMessage string | FlowReport "FlowStepResult list" int

definition flow_text :: "flow_return \<Rightarrow> string" where
  "flow_text r =
     (case r of FlowMessage t \<Rightarrow> t | FlowReport results totalMs \<Rightarrow> formatFlowResults results totalMs)"

definition currentPlatform :: "('w, 'e) ToolContext \<Rightarrow> FlowArgs \<Rightarrow> 'w fstate \<Rightarrow> string option" where
  "currentPlatform ctx fargs s =
     (case fa_platform fargs of Some p \<Rightarrow> Some p | None \<Rightarrow> ctx_getCurrentPlatform ctx (fst s))"

definition flow_maxDuration :: "FlowArgs \<Rightarrow> int" where
  "flow_maxDuration fargs =
     min (case fa_maxDuration fargs of None \<Rightarrow> 30000 | Some m \<Rightarrow> m) FLOW_MAX_DURATION"

definition run_flow ::
  "('w, 'e) ToolContext \<Rightarrow> FlowArgs \<Rightarrow> nat \<Rightarrow> 'w fstate \<Rightarrow> (js_error + flow_return) \<times> 'w fstate" where
  "run_flow ctx fargs depth s =
     (if depth > MAX_RECURSION_DEPTH then (Inl recursion_error, s)
      else
        (case fa_steps fargs of
           None \<Rightarrow> (Inr (FlowMessage ''No steps provided''), s)
         | Some steps \<Rightarrow>
             (if steps = [] then (Inr (FlowMessage ''No steps provided''), s)
              else if length steps > FLOW_MAX_STEPS then
                (Inr (FlowMessage (''Too many steps ('' @ string_of_nat (length steps) @
                                   ''). Maximum is '' @ string_of_nat FLOW_MAX_STEPS @ ''.'')), s)
              else
                (case find (\<lambda>st. action st \<notin> set FLOW_ALLOWED_ACTIONS) steps of
                   Some bad \<Rightarrow>
                     (Inr (FlowMessage (''Action '' @ [CHR 0x22] @ action bad @ [CHR 0x22] @
                                        '' is not allowed in flows. Allowed: '' @
                                        join '', '' FLOW_ALLOWED_ACTIONS)), s)
                 | None \<Rightarrow>
                     (case now ctx s of
                        (flowStart, s1) \<Rightarrow>
                          (case flow_loop ctx depth (currentPlatform ctx fargs s) flowStart
                                  (flow_maxDuration fargs) 0 steps [] s1 of
                             (results, s2) \<Rightarrow>
                               (case now ctx s2 of
                                  (t, s3) \<Rightarrow> (Inr (FlowReport results (t - flowStart)), s3))))))))"

definition run_flow_handler ::
  "('w, 'e) ToolContext \<Rightarrow> FlowArgs \<Rightarrow> nat \<Rightarrow> 'w fstate \<Rightarrow> (js_error + response) \<times> 'w fstate" where
  "run_flow_handler ctx fargs depth s =
     (case run_flow ctx fargs depth s of
        (Inl e, s') \<Rightarrow> (Inl e, s')
      | (Inr r, s') \<Rightarrow> (Inr (text_response (flow_text r)), s'))"

section \<open>Batch executor (flow-tools.ts)\<close>

record BatchCommand =
  cmd_name :: string
  cmd_arguments :: "args option"

text \<open>\<open>stopOnError\<close> is whatever the caller sent, or absent.\<close>

record BatchArgs =
  ba_commands :: "BatchCommand list option"
  ba_stopOnError :: "json option"

record BatchEntry =
  b_command :: string
  b_success :: bool
  b_result :: string

text \<open>\<open>args.stopOnError !== false\<close>.\<close>

definition stopOnError :: "BatchArgs \<Rightarrow> bool" where
  "stopOnError bargs = (ba_stopOnError bargs \<noteq> Some (JBool False))"

text \<open>\<open>cmd.arguments ?? {}\<close>.\<close>

definition cmd_args :: "BatchCommand \<Rightarrow> args" where
  "cmd_args cmd = (case cmd_arguments cmd of None \<Rightarrow> [] | Some a \<Rightarrow> a)"

text \<open>The loop \<open>for (const cmd of commands)\<close> with its \<open>try\<close>/\<open>catch\<close> and \<open>break\<close>.\<close>

fun batch_loop ::
  "('w, 'e) ToolContext \<Rightarrow> nat \<Rightarrow> bool \<Rightarrow> BatchCommand list \<Rightarrow> BatchEntry list \<Rightarrow> 'w fstate
     \<Rightarrow> BatchEntry list \<times> 'w fstate" where
  "batch_loop ctx depth stop [] results s = (results, s)"
| "batch_loop ctx depth stop (cmd # rest) results s =
     (case dispatch ctx Attempt (cmd_name cmd) (cmd_args cmd) (depth + 1) s of
        (Inr result, s') \<Rightarrow>
          batch_loop ctx depth stop rest
            (results @ [\<lparr>b_command = cmd_name cmd, b_success = True,
                          b_result = result_text ctx result\<rparr>]) s'
      | (Inl error, s') \<Rightarrow>
          (if stop
           then (results @ [\<lparr>b_command = cmd_name cmd, b_success = False,
                              b_result = message error\<rparr>], s')
           else batch_loop ctx depth stop rest
                  (results @ [\<lparr>b_command = cmd_name cmd, b_success = False,
                                b_result = message error\<rparr>]) s'))"

definition batch_output :: "BatchEntry list \<Rightarrow> string" where
  "batch_output results =
     join [CHR 0x0A]
       (map (\<lambda>(i, r). string_of_nat (i + 1) @ ''. '' @ b_command r @ '': '' @
                       (if b_success r then ''OK'' else ''ERROR'') @ '' '' @ em_dash @ '' '' @ b_result r)
            (enumerate 0 results))"

definition batch_failed :: "BatchEntry list \<Rightarrow> nat" where
  "batch_failed results = length (filter (\<lambda>r. \<not> b_success r) results)"

definition batch_summary :: "BatchEntry list \<Rightarrow> nat \<Rightarrow> string" where
  "batch_summary results n =
     (if batch_failed results > 0
      then ''Batch: '' @ string_of_nat (length results) @ ''/'' @ string_of_nat n @
           '' executed, '' @ string_of_nat (batch_failed results) @ '' failed''
      else ''Batch: '' @ string_of_nat (length results) @ '' commands OK'')"

definition batch_commands ::
  "('w, 'e) ToolContext \<Rightarrow> BatchArgs \<Rightarrow> nat \<Rightarrow> 'w fstate \<Rightarrow> (js_error + response) \<times> 'w fstate" where
  "batch_commands ctx bargs depth s =
     (if depth > MAX_RECURSION_DEPTH then (Inl recursion_error, s)
      else
        (case ba_commands bargs of
           None \<Rightarrow> (Inr (text_response ''No commands provided''), s)
         | Some commands \<Rightarrow>
             (if commands = [] then (Inr (text_response ''No commands provided''), s)
              else
                (case batch_loop ctx depth (stopOnError bargs) commands [] s of
                   (results, s') \<Rightarrow>
                     (Inr (text_response
                             (batch_summary results (length commands) @ [CHR 0x0A, CHR 0x0A] @
                              batch_output results)), s')))))"

text \<open>The call a command is dispatched with.\<close>

definition call_of :: "nat \<Rightarrow> BatchCommand \<Rightarrow> call" where
  "call_of depth cmd = Call Attempt (cmd_name cmd) (cmd_args cmd) (depth + 1)"

section \<open>Action hints (context.ts) and the tap tool (interaction-tools.ts)\<close>

text \<open>The fields of \<open>UiElement\<close> that the tap tool reads.\<close>

record UiElement =
  el_index :: int
  el_text :: string
  el_resourceId :: string
  el_clickable :: bool
  el_centerX :: int
  el_centerY :: int

text \<open>The result of \<open>diffUiElements\<close>.\<close>

record UiDiff =
  screenChanged :: bool
  appeared :: "string list"
  disappeared :: "string list"
  beforeCount :: nat
  afterCount :: nat

text \<open>
  The state the two functions work on: the module-level \<open>cachedElementsMap\<close> and the
  device manager with everything behind it.
\<close>

record 'd hint_state =
  cachedElementsMap :: "string \<Rightarrow> UiElement list option"
  device :: 'd

text \<open>
  The device manager and the functions of \<open>ui-parser.js\<close>, which are not among the
  sources. \<open>dm_getUiHierarchy\<close> stands for \<open>getUiHierarchy\<close>/\<open>getUiHierarchyAsync\<close> of a
  platform, \<open>parseHierarchy\<close> for the conversion of its output (\<open>parseUiHierarchy\<close>,
  \<open>JSON.parse\<close> with \<open>iosTreeToUiElements\<close>, \<open>desktopHierarchyToUiElements\<close>), and
  \<open>ios_tapElement\<close> for \<open>findElement\<close> followed by \<open>tapElement\<close> of the iOS client. Each of
  them may throw.
\<close>

record ('d, 'raw) DeviceManager =
  dm_getCurrentPlatform :: "'d \<Rightarrow> string option"
  dm_getUiHierarchy :: "string \<Rightarrow> 'd \<Rightarrow> (js_error + 'raw) \<times> 'd"
  parseHierarchy :: "string \<Rightarrow> 'raw \<Rightarrow> js_error + UiElement list"
  dm_tap :: "int \<Rightarrow> int \<Rightarrow> string option \<Rightarrow> int option \<Rightarrow> 'd \<Rightarrow> (js_error + unit) \<times> 'd"
  ios_tapElement :: "string option \<Rightarrow> string option \<Rightarrow> 'd \<Rightarrow> (js_error + unit) \<times> 'd"
  dm_wait :: "nat \<Rightarrow> 'd \<Rightarrow> 'd"
  findByText :: "UiElement list \<Rightarrow> string \<Rightarrow> UiElement list"
  findByResourceId :: "UiElement list \<Rightarrow> string \<Rightarrow> UiElement list"
  diffUiElements :: "UiElement list \<Rightarrow> UiElement list \<Rightarrow> UiDiff"
  suggestNextActions :: "UiElement list \<Rightarrow> string list"

definition getCachedElements :: "string \<Rightarrow> 'd hint_state \<Rightarrow> UiElement list" where
  "getCachedElements platform st = (case cachedElementsMap st platform of None \<Rightarrow> [] | Some els \<Rightarrow> els)"

definition setCachedElements :: "string \<Rightarrow> UiElement list \<Rightarrow> 'd hint_state \<Rightarrow> 'd hint_state" where
  "setCachedElements platform elements st =
     st\<lparr>cachedElementsMap := (cachedElementsMap st)(platform \<mapsto> elements)\<rparr>"

text \<open>Fetching and converting the hierarchy of a platform; either part may throw.\<close>

definition fetchElements ::
  "('d, 'raw) DeviceManager \<Rightarrow> string \<Rightarrow> 'd hint_state \<Rightarrow> (js_error + UiElement list) \<times> 'd hint_state" where
  "fetchElements dm platform st =
     (case dm_getUiHierarchy dm platform (device st) of
        (Inl e, d') \<Rightarrow> (Inl e, st\<lparr>device := d'\<rparr>)
      | (Inr raw, d') \<Rightarrow> (parseHierarchy dm platform raw, st\<lparr>device := d'\<rparr>))"

text \<open>The body of the \<open>try\<close> block of \<open>generateActionHints\<close>.\<close>

definition hints_capture ::
  "('d, 'raw) DeviceManager \<Rightarrow> string \<Rightarrow> 'd hint_state \<Rightarrow> (js_error + UiElement list) \<times> 'd hint_state" where
  "hints_capture dm curPlatform st =
     (if curPlatform = ''android'' \<or> curPlatform = ''ios'' \<or> curPlatform = ''desktop''
      then fetchElements dm curPlatform st
      else (Inr [], st))"

text \<open>The separator of the \<open>Elements\<close> line, byte for byte as the source file has it.\<close>

definition elements_arrow :: string where
  "elements_arrow = [CHR 0xC3, CHR 0xA2, CHR 0xE2, CHR 0x80, CHR 0xA0, CHR 0xE2, CHR 0x80, CHR 0x99]"

definition hints_header :: string where
  "hints_header = [CHR 0x0A] @ ''--- Hints ---''"

definition hints_unavailable :: "js_error \<Rightarrow> string" where
  "hints_unavailable hintError =
     hints_header @ [CHR 0x0A] @ ''Unable to fetch UI state for hints: '' @ message hintError"

definition hints_lines :: "UiDiff \<Rightarrow> string list \<Rightarrow> string list" where
  "hints_lines diff suggestions =
     [hints_header] @
     (if screenChanged diff then [''Screen changed (new activity or major UI update)''] else []) @
     (if appeared diff \<noteq> [] then [''New: '' @ join '', '' (appeared diff)] else []) @
     (if disappeared diff \<noteq> [] then [''Gone: '' @ join '', '' (disappeared diff)] else []) @
     [''Elements: '' @ string_of_nat (beforeCount diff) @ '' '' @ elements_arrow @ '' '' @
        string_of_nat (afterCount diff)] @
     (if suggestions \<noteq> [] then [''Suggested: '' @ join ''; '' suggestions] else [])"

text \<open>
  \<open>generateActionHints\<close>. The result is a sum so that a throw would show; the only
  fallible part is inside the \<open>try\<close>.
\<close>

definition generateActionHints ::
  "('d, 'raw) DeviceManager \<Rightarrow> string option \<Rightarrow> 'd hint_state \<Rightarrow> (js_error + string) \<times> 'd hint_state" where
  "generateActionHints dm platform st =
     (let curPlatform =
            (case platform of
               Some p \<Rightarrow> p
             | None \<Rightarrow> (case dm_getCurrentPlatform dm (device st) of Some p \<Rightarrow> p | None \<Rightarrow> ''android''));
          beforeElements = getCachedElements curPlatform st;
          st1 = st\<lparr>device := dm_wait dm 150 (device st)\<rparr>
      in case hints_capture dm curPlatform st1 of
           (Inl hintError, st2) \<Rightarrow> (Inr (hints_unavailable hintError), st2)
         | (Inr afterElements, st2) \<Rightarrow>
             (let st3 = setCachedElements curPlatform afterElements st2
              in if beforeElements = [] \<and> afterElements = []
                 then (Inr (hints_header @ [CHR 0x0A] @ ''No UI elements detected.''), st3)
                 else (Inr (join [CHR 0x0A]
                              (hints_lines (diffUiElements dm beforeElements afterElements)
                                           (suggestNextActions dm afterElements))), st3)))"

record TapArgs =
  ta_x :: "int option"
  ta_y :: "int option"
  ta_text :: "string option"
  ta_label :: "string option"
  ta_resourceId :: "string option"
  ta_index :: "int option"
  ta_targetPid :: "int option"
  ta_hints :: "json option"
  ta_platform :: "string option"

text \<open>Where a stretch of the handler leaves off: it threw, it returned, or it goes on.\<close>

datatype 'a progress = Thrown js_error | Returned response | Proceed 'a

text \<open>\<open>args.label || args.text\<close>.\<close>

definition label_or_text :: "TapArgs \<Rightarrow> string" where
  "label_or_text a =
     (if truthy (ta_label a) then the (ta_label a)
      else case ta_text a of Some t \<Rightarrow> t | None \<Rightarrow> ''undefined'')"

text \<open>The iOS branch: its \<open>try\<close>/\<open>catch\<close> turns every failure into a text.\<close>

definition tap_ios ::
  "('d, 'raw) DeviceManager \<Rightarrow> TapArgs \<Rightarrow> 'd hint_state \<Rightarrow> response \<times> 'd hint_state" where
  "tap_ios dm a st =
     (case ios_tapElement dm (ta_text a) (ta_label a) (device st) of
        (Inr u, d') \<Rightarrow> (text_response (''Tapped element: '' @ label_or_text a), st\<lparr>device := d'\<rparr>)
      | (Inl error, d') \<Rightarrow>
          (text_response (''Element not found: '' @ label_or_text a @ [CHR 0x0A] @ message error),
           st\<lparr>device := d'\<rparr>))"

text \<open>\<open>if (args.index !== undefined && curPlatform === "android")\<close>.\<close>

definition tap_by_index ::
  "('d, 'raw) DeviceManager \<Rightarrow> TapArgs \<Rightarrow> string option \<Rightarrow> int option \<times> int option \<Rightarrow> 'd hint_state
     \<Rightarrow> (int option \<times> int option) progress \<times> 'd hint_state" where
  "tap_by_index dm a curPlatform xy st =
     (case ta_index a of
        None \<Rightarrow> (Proceed xy, st)
      | Some idx \<Rightarrow>
          (if curPlatform \<noteq> Some ''android'' then (Proceed xy, st)
           else
             (case (if getCachedElements ''android'' st = []
                    then (case fetchElements dm ''android'' st of
                            (Inl e, st') \<Rightarrow> (Inl e, st')
                          | (Inr els, st') \<Rightarrow> (Inr els, setCachedElements ''android'' els st'))
                    else (Inr (getCachedElements ''android'' st), st)) of
                (Inl e, st') \<Rightarrow> (Thrown e, st')
              | (Inr elements, st') \<Rightarrow>
                  (case find (\<lambda>e. el_index e = idx) elements of
                     None \<Rightarrow>
                       (Returned (text_response (''Element with index '' @ string_of_int idx @
                                                 '' not found. Run get_ui first.'')), st')
                   | Some el \<Rightarrow> (Proceed (Some (el_centerX el), Some (el_centerY el)), st')))))"

text \<open>\<open>if ((args.text || args.resourceId) && curPlatform === "android")\<close>.\<close>

definition tap_by_text ::
  "('d, 'raw) DeviceManager \<Rightarrow> TapArgs \<Rightarrow> string option \<Rightarrow> int option \<times> int option \<Rightarrow> 'd hint_state
     \<Rightarrow> (int option \<times> int option) progress \<times> 'd hint_state" where
  "tap_by_text dm a curPlatform xy st =
     (if (truthy (ta_text a) \<or> truthy (ta_resourceId a)) \<and> curPlatform = Some ''android'' then
        (case fetchElements dm ''android'' st of
           (Inl e, st') \<Rightarrow> (Thrown e, st')
         | (Inr elements, st') \<Rightarrow>
             (let st'' = setCachedElements ''android'' elements st';
                  found = (if truthy (ta_text a) then findByText dm elements (the (ta_text a))
                           else findByResourceId dm elements (the (ta_resourceId a)))
              in case found of
                   [] \<Rightarrow>
                     (Returned (text_response
                        (''Element not found: '' @
                         (if truthy (ta_text a) then the (ta_text a) else the (ta_resourceId a)))), st'')
                 | first # others \<Rightarrow>
                     (case filter el_clickable found of
                        [] \<Rightarrow> (Proceed (Some (el_centerX first), Some (el_centerY first)), st'')
                      | target # unused \<Rightarrow>
                          (Proceed (Some (el_centerX target), Some (el_centerY target)), st''))))
      else (Proceed xy, st))"

text \<open>The primary action and the optional hints.\<close>

definition tap_at ::
  "('d, 'raw) DeviceManager \<Rightarrow> TapArgs \<Rightarrow> int \<Rightarrow> int \<Rightarrow> 'd hint_state
     \<Rightarrow> (js_error + response) \<times> 'd hint_state" where
  "tap_at dm a x y st =
     (case dm_tap dm x y (ta_platform a) (ta_targetPid a) (device st) of
        (Inl e, d') \<Rightarrow> (Inl e, st\<lparr>device := d'\<rparr>)
      | (Inr u, d') \<Rightarrow>
          (let result = ''Tapped at ('' @ string_of_int x @ '', '' @ string_of_int y @ '')'';
               st1 = st\<lparr>device := d'\<rparr>
           in if ta_hints a = Some (JBool True) then
                (case generateActionHints dm (ta_platform a) st1 of
                   (Inl e, st2) \<Rightarrow> (Inl e, st2)
                 | (Inr hints, st2) \<Rightarrow> (Inr (text_response (result @ hints)), st2))
              else (Inr (text_response result), st1)))"

definition tap_handler ::
  "('d, 'raw) DeviceManager \<Rightarrow> TapArgs \<Rightarrow> 'd hint_state \<Rightarrow> (js_error + response) \<times> 'd hint_state" where
  "tap_handler dm a st =
     (let curPlatform =
            (case ta_platform a of Some p \<Rightarrow> Some p | None \<Rightarrow> dm_getCurrentPlatform dm (device st))
      in if curPlatform = Some ''ios'' \<and> (truthy (ta_label a) \<or> truthy (ta_text a)) then
           (case tap_ios dm a st of (r, st') \<Rightarrow> (Inr r, st'))
         else
           (case tap_by_index dm a curPlatform (ta_x a, ta_y a) st of
              (Thrown e, st1) \<Rightarrow> (Inl e, st1)
            | (Returned r, st1) \<Rightarrow> (Inr r, st1)
            | (Proceed xy1, st1) \<Rightarrow>
                (case tap_by_text dm a curPlatform xy1 st1 of
                   (Thrown e, st2) \<Rightarrow> (Inl e, st2)
                 | (Returned r, st2) \<Rightarrow> (Inr r, st2)
                 | (Proceed (Some x, Some y), st2) \<Rightarrow> tap_at dm a x y st2
                 | (Proceed other, st2) \<Rightarrow>
                     (Inr (text_response
                        ''Please provide x,y coordinates, text, resourceId, label, or index''), st2))))"

text \<open>The platform \<open>generateActionHints\<close> works on: \<open>platform ?? getCurrentPlatform() ?? "android"\<close>.\<close>

definition hints_platform :: "('d, 'raw) DeviceManager \<Rightarrow> string option \<Rightarrow> 'd hint_state \<Rightarrow> string" where
  "hints_platform dm platform st =
     (case platform of
        Some p \<Rightarrow> p
      | None \<Rightarrow> (case dm_getCurrentPlatform dm (device st) of Some p \<Rightarrow> p | None \<Rightarrow> ''android''))"

section \<open>Screenshot tool, diff mode (screenshot-tools.ts)\<close>

record Region =
  reg_x :: int
  reg_y :: int
  reg_width :: int
  reg_height :: int

text \<open>
  The result of \<open>compareScreenshots\<close>. The percentage is a JavaScript number; it is taken
  as a real, so the not-a-number value is left out. The tests against 5 and 80 are exact on
  the numbers a double can hold.
\<close>

record ScreenDiff =
  changePercent :: real
  changedRegion :: "Region option"

record ('d, 'buf) shot_state =
  lastScreenshotMap :: "string \<Rightarrow> 'buf option"
  shot_device :: 'd

text \<open>
  The device manager and the functions of \<open>utils/image.js\<close>, which are not among the
  sources; each of them may throw, except the base64 rendering of a buffer and the
  rendering of numbers in the messages.
\<close>

record ('d, 'buf, 'o) ScreenshotEnv =
  sc_getCurrentPlatform :: "'d \<Rightarrow> string option"
  getScreenshotBuffer :: "string \<Rightarrow> 'd \<Rightarrow> (js_error + 'buf) \<times> 'd"
  compareScreenshots :: "'buf \<Rightarrow> 'buf \<Rightarrow> real \<Rightarrow> js_error + ScreenDiff"
  cropRegion :: "'buf \<Rightarrow> Region \<Rightarrow> nat \<Rightarrow> js_error + 'buf"
  compressScreenshot :: "'buf \<Rightarrow> 'o \<Rightarrow> js_error + string \<times> string"
  toBase64 :: "'buf \<Rightarrow> string"
  sc_wait :: "nat \<Rightarrow> 'd \<Rightarrow> 'd"
  show_number :: "real \<Rightarrow> string"

record 'o ScreenshotArgs =
  sa_platform :: "string option"
  sa_compress :: "json option"
  sa_diff :: "json option"
  sa_waitForStable :: "json option"
  sa_diffThreshold :: "real option"
  sa_compressOptions :: 'o

definition STABLE_INTERVAL_MS :: nat where
  "STABLE_INTERVAL_MS = 300"

definition STABLE_MAX_RETRIES :: nat where
  "STABLE_MAX_RETRIES = 3"

definition STABLE_THRESHOLD_PERCENT :: real where
  "STABLE_THRESHOLD_PERCENT = 2"

text \<open>The loop of \<open>waitForStableScreenshot\<close>, with the number of rounds left.\<close>

fun stable_loop ::
  "('d, 'buf, 'o) ScreenshotEnv \<Rightarrow> string \<Rightarrow> nat \<Rightarrow> 'buf \<Rightarrow> 'd \<Rightarrow> (js_error + 'buf) \<times> 'd" where
  "stable_loop env plat 0 prev d = (Inr prev, d)"
| "stable_loop env plat (Suc n) prev d =
     (case getScreenshotBuffer env plat (sc_wait env STABLE_INTERVAL_MS d) of
        (Inl e, d') \<Rightarrow> (Inl e, d')
      | (Inr next, d') \<Rightarrow>
          (case compareScreenshots env prev next 30 of
             Inl e \<Rightarrow> (Inl e, d')
           | Inr diff \<Rightarrow>
               (if changePercent diff < STABLE_THRESHOLD_PERCENT then (Inr next, d')
                else stable_loop env plat n next d')))"

definition waitForStableScreenshot ::
  "('d, 'buf, 'o) ScreenshotEnv \<Rightarrow> string \<Rightarrow> 'd \<Rightarrow> (js_error + 'buf) \<times> 'd" where
  "waitForStableScreenshot env plat d =
     (case getScreenshotBuffer env plat d of
        (Inl e, d') \<Rightarrow> (Inl e, d')
      | (Inr prev, d') \<Rightarrow> stable_loop env plat STABLE_MAX_RETRIES prev d')"

text \<open>\<open>platform ?? ctx.deviceManager.getCurrentPlatform() ?? "android"\<close>.\<close>

definition shot_platform ::
  "('d, 'buf, 'o) ScreenshotEnv \<Rightarrow> 'o ScreenshotArgs \<Rightarrow> ('d, 'buf) shot_state \<Rightarrow> string" where
  "shot_platform env a st =
     (case sa_platform a of
        Some p \<Rightarrow> p
      | None \<Rightarrow> (case sc_getCurrentPlatform env (shot_device st) of Some p \<Rightarrow> p | None \<Rightarrow> ''android''))"

text \<open>\<open>stableMode ? await waitForStableScreenshot(captureBuffer) : await captureBuffer()\<close>.\<close>

definition shot_capture ::
  "('d, 'buf, 'o) ScreenshotEnv \<Rightarrow> 'o ScreenshotArgs \<Rightarrow> ('d, 'buf) shot_state
     \<Rightarrow> (js_error + 'buf) \<times> ('d, 'buf) shot_state" where
  "shot_capture env a st =
     (case (if sa_waitForStable a = Some (JBool True)
            then waitForStableScreenshot env (shot_platform env a st) (shot_device st)
            else getScreenshotBuffer env (shot_platform env a st) (shot_device st)) of
        (r, d') \<Rightarrow> (r, st\<lparr>shot_device := d'\<rparr>))"

text \<open>
  \<open>compress ? await compressScreenshot(buffer, compressOptions) : { data:
  buffer.toString("base64"), mimeType: "image/png" }\<close>.
\<close>

definition encode_image ::
  "('d, 'buf, 'o) ScreenshotEnv \<Rightarrow> 'o ScreenshotArgs \<Rightarrow> 'buf \<Rightarrow> js_error + string \<times> string" where
  "encode_image env a buffer =
     (if sa_compress a \<noteq> Some (JBool False) then compressScreenshot env buffer (sa_compressOptions a)
      else Inr (toBase64 env buffer, ''image/png''))"

definition image_response ::
  "('d, 'buf, 'o) ScreenshotEnv \<Rightarrow> 'o ScreenshotArgs \<Rightarrow> 'buf \<Rightarrow> string option \<Rightarrow> js_error + response" where
  "image_response env a buffer caption =
     (case encode_image env a buffer of
        Inl e \<Rightarrow> Inl e
      | Inr img \<Rightarrow> Inr (Response caption (Some img)))"

text \<open>The three tiers that follow \<open>compareScreenshots\<close>.\<close>

definition diff_response ::
  "('d, 'buf, 'o) ScreenshotEnv \<Rightarrow> 'o ScreenshotArgs \<Rightarrow> 'buf \<Rightarrow> ScreenDiff \<Rightarrow> js_error + response" where
  "diff_response env a pngBuffer diff =
     (if changePercent diff < 5 then
        Inr (text_response (''Screen unchanged ('' @ show_number env (changePercent diff) @ ''% diff)''))
      else if changePercent diff \<ge> 80 \<or> changedRegion diff = None then
        image_response env a pngBuffer
          (Some (''Screen changed significantly ('' @ show_number env (changePercent diff) @
                 ''% diff) '' @ em_dash @ '' full screenshot''))
      else
        (case cropRegion env pngBuffer (the (changedRegion diff)) 20 of
           Inl e \<Rightarrow> Inl e
         | Inr croppedBuffer \<Rightarrow>
             image_response env a croppedBuffer
               (Some (''Changed region ('' @ show_number env (changePercent diff) @ ''% diff) at ('' @
                      string_of_int (reg_x (the (changedRegion diff))) @ '', '' @
                      string_of_int (reg_y (the (changedRegion diff))) @ '') '' @
                      string_of_int (reg_width (the (changedRegion diff))) @ ''x'' @
                      string_of_int (reg_height (the (changedRegion diff)))))))"

definition screenshot_handler ::
  "('d, 'buf, 'o) ScreenshotEnv \<Rightarrow> 'o ScreenshotArgs \<Rightarrow> ('d, 'buf) shot_state
     \<Rightarrow> (js_error + response) \<times> ('d, 'buf) shot_state" where
  "screenshot_handler env a st =
     (let curPlatform = shot_platform env a st
      in case shot_capture env a st of
           (Inl e, st1) \<Rightarrow> (Inl e, st1)
         | (Inr pngBuffer, st1) \<Rightarrow>
             (let st2 = st1\<lparr>lastScreenshotMap := (lastScreenshotMap st1)(curPlatform \<mapsto> pngBuffer)\<rparr>
              in if sa_diff a = Some (JBool True) then
                   (case lastScreenshotMap st1 curPlatform of
                      None \<Rightarrow>
                        (image_response env a pngBuffer
                           (Some ''First screenshot (no previous to diff against)''), st2)
                    | Some prevBuffer \<Rightarrow>
                        (case compareScreenshots env prevBuffer pngBuffer
                                (case sa_diffThreshold a of None \<Rightarrow> 30 | Some t \<Rightarrow> t) of
                           Inl e \<Rightarrow> (Inl e, st2)
                         | Inr diff \<Rightarrow> (diff_response env a pngBuffer diff, st2)))
                 else (image_response env a pngBuffer None, st2)))"

section \<open>Wiring of the tools (index.ts, context.ts)\<close>

text \<open>
  Reading the arguments of the tap tool out of the argument object, each field at the
  type the schema of the tool gives it; \<open>undefined\<close> and a missing key are the same.
\<close>

definition arg_string :: "args \<Rightarrow> string \<Rightarrow> string option" where
  "arg_string a k = (case map_of a k of Some (JStr v) \<Rightarrow> Some v | _ \<Rightarrow> None)"

definition arg_number :: "args \<Rightarrow> string \<Rightarrow> int option" where
  "arg_number a k = (case map_of a k of Some (JNum v) \<Rightarrow> Some v | _ \<Rightarrow> None)"

definition tap_args_of :: "args \<Rightarrow> TapArgs" where
  "tap_args_of a =
     \<lparr>ta_x = arg_number a ''x'', ta_y = arg_number a ''y'', ta_text = arg_string a ''text'',
      ta_label = arg_string a ''label'', ta_resourceId = arg_string a ''resourceId'',
      ta_index = arg_number a ''index'', ta_targetPid = arg_number a ''targetPid'',
      ta_hints = map_of a ''hints'', ta_platform = arg_string a ''platform''\<rparr>"

text \<open>The entry of \<open>interactionTools\<close> for \<open>tap\<close>: the handler ignores the depth.\<close>

definition tap_tool :: "('d, 'raw) DeviceManager \<Rightarrow> 'd hint_state handler_fn ToolDefinition" where
  "tap_tool dm =
     \<lparr>tool = \<lparr>name = ''tap'', description = ''Tap at coordinates or find element by text/id/index and tap''\<rparr>,
      handler = (\<lambda>a depth st. tap_handler dm (tap_args_of a) st)\<rparr>"

text \<open>\<open>getElementsForPlatform\<close>: Android also when no platform is given, nothing for Aurora.\<close>

definition getElementsForPlatform ::
  "('d, 'raw) DeviceManager \<Rightarrow> string option \<Rightarrow> 'd hint_state \<Rightarrow> (js_error + UiElement list) \<times> 'd hint_state" where
  "getElementsForPlatform dm plat st =
     (case (if plat = Some ''android'' \<or> plat = None \<or> plat = Some [] then Some ''android''
            else if plat = Some ''ios'' then Some ''ios''
            else if plat = Some ''desktop'' then Some ''desktop''
            else None) of
        None \<Rightarrow> (Inr [], st)
      | Some p \<Rightarrow>
          (case fetchElements dm p st of
             (Inl e, st') \<Rightarrow> (Inl e, st')
           | (Inr elements, st') \<Rightarrow> (Inr elements, setCachedElements p elements st')))"

text \<open>
  \<open>createToolContext(handleTool)\<close> over the registry: the dispatcher of the context is
  \<open>handleTool\<close>, the capture and the active platform are those of the device manager. The
  runtime functions come with \<open>runtime\<close>. The world of the context is the state of the
  tools together with the log of the handlers invoked.
\<close>

definition createToolContext ::
  "('d, 'raw) DeviceManager \<Rightarrow> ('d hint_state \<times> invocation list, UiElement) ToolContext
     \<Rightarrow> 'd hint_state handler_fn registry \<Rightarrow> ('d hint_state \<times> invocation list, UiElement) ToolContext" where
  "createToolContext dm runtime reg =
     runtime
       \<lparr>ctx_handleTool := handleTool reg,
        ctx_getElementsForPlatform :=
          (\<lambda>plat w. case getElementsForPlatform dm plat (fst w) of (r, st') \<Rightarrow> (r, (st', snd w))),
        ctx_getCurrentPlatform := (\<lambda>w. dm_getCurrentPlatform dm (device (fst w)))\<rparr>"

section \<open>The calls a step can issue\<close>

definition swipe_args :: "string option \<Rightarrow> string \<Rightarrow> args" where
  "swipe_args cur dir = [(''direction'', JStr dir), (''platform'', platform_json cur)]"

definition step_calls :: "nat \<Rightarrow> string option \<Rightarrow> FlowStep \<Rightarrow> call set" where
  "step_calls d cur st =
     {Call Attempt (action st) (stepArgs cur st) (d + 1),
      Call FallbackRetry (action st) (stepArgs cur st) (d + 1),
      Call FallbackSwipe ''swipe'' (swipe_args cur ''up'') (d + 1),
      Call FallbackSwipe ''swipe'' (swipe_args cur ''down'') (d + 1)}"

text \<open>How many calls of the log were issued from a given call site.\<close>

definition count_kind :: "call_kind \<Rightarrow> call list \<Rightarrow> nat" where
  "count_kind k calls = length (filter (\<lambda>c. call_kind c = k) calls)"

section \<open>Concrete registries used in the examples\<close>

definition tap_stub :: "nat handler_fn" where
  "tap_stub a depth w = (Inr (text_response ''Tapped''), Suc w)"

definition tap_def :: "nat handler_fn ToolDefinition" where
  "tap_def = \<lparr>tool = \<lparr>name = ''tap'', description = ''Tap at coordinates''\<rparr>, handler = tap_stub\<rparr>"

definition demo_registry :: "nat handler_fn registry" where
  "demo_registry = registerTools [tap_def] empty_registry"

definition demo_alias_registry :: "nat handler_fn registry" where
  "demo_alias_registry = registerAliases [(''click'', ''tap'')] demo_registry"

text \<open>
  A registry in which \<open>click\<close> is both a canonical tool of its own and an alias of
  \<open>tap\<close>: the order of the two lookups in \<open>getHandler\<close> decides which handler answers.
\<close>

definition click_stub :: "nat handler_fn" where
  "click_stub a depth w = (Inr (text_response ''Clicked''), Suc (Suc w))"

definition click_def :: "nat handler_fn ToolDefinition" where
  "click_def = \<lparr>tool = \<lparr>name = ''click'', description = ''Click an element''\<rparr>, handler = click_stub\<rparr>"

definition shadow_registry :: "nat handler_fn registry" where
  "shadow_registry = registerAliases [(''click'', ''tap'')] (registerTools [tap_def, click_def] empty_registry)"

section \<open>Concrete contexts used in the examples\<close>

text \<open>
  A scripted dispatcher on a world that counts the calls made so far: the \<open>n\<close>-th call
  gets the \<open>n\<close>-th entry of the script, and succeeds once the script is exhausted. The
  clock stands still, the capture always yields the given outcome, and elements are their
  texts.
\<close>

definition scripted ::
  "(js_error + response) list \<Rightarrow> string \<Rightarrow> args \<Rightarrow> nat \<Rightarrow> nat \<Rightarrow> (js_error + response) \<times> nat" where
  "scripted script nm a d w =
     ((if w < length script then script ! w else Inr (text_response ''ok'')), Suc w)"

definition demo_ctx ::
  "(js_error + response) list \<Rightarrow> (js_error + string list) \<Rightarrow> (nat, string) ToolContext" where
  "demo_ctx script capture =
     \<lparr>ctx_handleTool = scripted script,
      ctx_getElementsForPlatform = (\<lambda>p w. (capture, w)),
      ctx_getCurrentPlatform = (\<lambda>w. Some ''android''),
      Date_now = (\<lambda>w. (0, w)),
      setTimeout = (\<lambda>ms w. w),
      JSON_stringify = (\<lambda>r. ''{}''),
      String_slice = take,
      findElements = (\<lambda>els t. filter (\<lambda>e. e = t) els)\<rparr>"

definition plain_step :: "string \<Rightarrow> args \<Rightarrow> FlowStep" where
  "plain_step a xs =
     \<lparr>action = a, step_args = Some xs, if_not_found = None, repeat_spec = None,
      on_error = None, step_label = None\<rparr>"

definition flow_of :: "FlowStep list \<Rightarrow> FlowArgs" where
  "flow_of steps = \<lparr>fa_platform = None, fa_steps = Some steps, fa_maxDuration = None\<rparr>"

definition submit_step :: "string \<Rightarrow> FlowStep" where
  "submit_step policy = (plain_step ''tap'' [(''text'', JStr ''Submit'')])\<lparr>if_not_found := Some policy\<rparr>"


definition offline_error :: js_error where
  "offline_error = JsError DeviceOfflineError ''device offline''"

definition batch_ctx :: "(nat, string) ToolContext" where
  "batch_ctx =
     (demo_ctx [] (Inr []))
       \<lparr>ctx_handleTool := (\<lambda>nm a d w.
          ((if nm = ''failing_tool'' then Inl (JsError GenericError ''boom'')
            else Inr (text_response ''done'')), Suc w))\<rparr>"

definition batch_of :: "json option \<Rightarrow> BatchArgs" where
  "batch_of stop =
     \<lparr>ba_commands = Some [\<lparr>cmd_name = ''ok_tool'', cmd_arguments = None\<rparr>,
                          \<lparr>cmd_name = ''failing_tool'', cmd_arguments = None\<rparr>,
                          \<lparr>cmd_name = ''ok_tool'', cmd_arguments = None\<rparr>],
      ba_stopOnError = stop\<rparr>"

text \<open>A device whose hierarchy cannot be fetched and whose taps succeed.\<close>

definition dead_ui_device :: "(nat, string) DeviceManager" where
  "dead_ui_device =
     \<lparr>dm_getCurrentPlatform = (\<lambda>d. Some ''android''),
      dm_getUiHierarchy = (\<lambda>p d. (Inl offline_error, d)),
      parseHierarchy = (\<lambda>p raw. Inr []),
      dm_tap = (\<lambda>x y p pid d. (Inr (), Suc d)),
      ios_tapElement = (\<lambda>t l d. (Inr (), d)),
      dm_wait = (\<lambda>ms d. d),
      findByText = (\<lambda>els t. filter (\<lambda>e. el_text e = t) els),
      findByResourceId = (\<lambda>els t. filter (\<lambda>e. el_resourceId e = t) els),
      diffUiElements = (\<lambda>before after. \<lparr>screenChanged = False, appeared = [], disappeared = [],
                                          beforeCount = length before, afterCount = length after\<rparr>),
      suggestNextActions = (\<lambda>els. [])\<rparr>"

definition tap_with_hints :: TapArgs where
  "tap_with_hints =
     \<lparr>ta_x = Some 10, ta_y = Some 20, ta_text = None, ta_label = None, ta_resourceId = None,
      ta_index = None, ta_targetPid = None, ta_hints = Some (JBool True), ta_platform = None\<rparr>"

definition fresh_state :: "nat hint_state" where
  "fresh_state = \<lparr>cachedElementsMap = (\<lambda>p. None), device = 0\<rparr>"

text \<open>
  A screenshot environment on buffers that are strings: two equal frames differ by 0
  percent with no region, two different ones by 50 percent in a fixed region; cropping
  keeps the first five characters.
\<close>

definition demo_region :: Region where
  "demo_region = \<lparr>reg_x = 1, reg_y = 2, reg_width = 3, reg_height = 4\<rparr>"

definition demo_shot_env :: "(string list, string, unit) ScreenshotEnv" where
  "demo_shot_env =
     \<lparr>sc_getCurrentPlatform = (\<lambda>d. Some ''android''),
      getScreenshotBuffer = (\<lambda>p d. (case d of [] \<Rightarrow> (Inl offline_error, []) | f # fs \<Rightarrow> (Inr f, fs))),
      compareScreenshots = (\<lambda>prev next t.
         Inr (if prev = next then \<lparr>changePercent = 0, changedRegion = None\<rparr>
              else \<lparr>changePercent = 50, changedRegion = Some demo_region\<rparr>)),
      cropRegion = (\<lambda>b r pad. Inr (take 5 b)),
      compressScreenshot = (\<lambda>b opts. Inr (b, ''image/jpeg'')),
      toBase64 = (\<lambda>b. b),
      sc_wait = (\<lambda>ms d. d),
      show_number = (\<lambda>r. if r = 0 then ''0'' else ''50'')\<rparr>"

definition diff_args :: "unit ScreenshotArgs" where
  "diff_args =
     \<lparr>sa_platform = None, sa_compress = None, sa_diff = Some (JBool True), sa_waitForStable = None,
      sa_diffThreshold = None, sa_compressOptions = ()\<rparr>"

definition shot_state_of :: "string \<Rightarrow> string list \<Rightarrow> (string list, string) shot_state" where
  "shot_state_of cached frames =
     \<lparr>lastScreenshotMap = (\<lambda>p. if p = ''android'' then Some cached else None), shot_device = frames\<rparr>"

text \<open>A step that taps \<open>Next\<close> until \<open>Done\<close> is on screen, with the given \<open>on_error\<close>.\<close>

definition until_done_step :: "string \<Rightarrow> FlowStep" where
  "until_done_step policy =
     (plain_step ''tap'' [(''text'', JStr ''Next'')])
       \<lparr>repeat_spec := Some \<lparr>rep_times = None, until_found = Some ''Done'', until_not_found = None\<rparr>,
        on_error := Some policy\<rparr>"

text \<open>
  An Android device whose screen shows a single \<open>Cancel\<close> button, with the tap tool
  registered and a clock that stands still.
\<close>

definition cancel_button :: UiElement where
  "cancel_button =
     \<lparr>el_index = 0, el_text = ''Cancel'', el_resourceId = ''btn_cancel'', el_clickable = True,
      el_centerX = 100, el_centerY = 200\<rparr>"

definition cancel_device :: "(nat, string) DeviceManager" where
  "cancel_device =
     dead_ui_device
       \<lparr>dm_getUiHierarchy := (\<lambda>p d. (Inr ''<hierarchy/>'', d)),
        parseHierarchy := (\<lambda>p raw. Inr [cancel_button])\<rparr>"

definition cancel_registry :: "nat hint_state handler_fn registry" where
  "cancel_registry = registerTools [tap_tool cancel_device] empty_registry"

definition cancel_ctx :: "(nat hint_state \<times> invocation list, UiElement) ToolContext" where
  "cancel_ctx =
     createToolContext cancel_device
       \<lparr>ctx_handleTool = (\<lambda>nm a d w. (Inl (JsError GenericError ''unwired''), w)),
        ctx_getElementsForPlatform = (\<lambda>p w. (Inr [], w)),
        ctx_getCurrentPlatform = (\<lambda>w. None),
        Date_now = (\<lambda>w. (0, w)),
        setTimeout = (\<lambda>ms w. w),
        JSON_stringify = (\<lambda>r. ''{}''),
        String_slice = take,
        findElements = (\<lambda>els t. filter (\<lambda>e. el_text e = t) els)\<rparr>
       cancel_registry"

section \<open>Properties of the registry and the dispatcher\<close>

lemma string_of_nat_3: "string_of_nat 3 = ''3''"
  by (simp add: string_of_nat.simps [of 3])


lemma recursion_error_message:
  "message recursion_error = ''Maximum recursion depth (3) exceeded. Nested batch_commands/run_flow calls are limited to prevent stack overflow.''"
  by (simp add: recursion_error_def MAX_RECURSION_DEPTH_def string_of_nat_3)

lemma update_set_subset: "set (AList.update k v al) \<subseteq> insert (k, v) (set al)"
  by (induction al) auto

lemma registerTools_keys:
  "fst ` set (foldl (\<lambda>m d. AList.update (name (tool d)) d m) m0 defs)
     = fst ` set m0 \<union> (\<lambda>d. name (tool d)) ` set defs"
  by (induction defs arbitrary: m0) (auto simp: AList.dom_update)

lemma registerTools_named:
  "\<forall>(k, d) \<in> set m0. name (tool d) = k \<Longrightarrow>
   \<forall>(k, d) \<in> set (foldl (\<lambda>m d. AList.update (name (tool d)) d m) m0 defs). name (tool d) = k"
proof (induction defs arbitrary: m0)
  case Nil
  then show ?case by simp
next
  case (Cons d defs)
  have "\<forall>(k, d') \<in> set (AList.update (name (tool d)) d m0). name (tool d') = k"
    using Cons.prems update_set_subset [of "name (tool d)" d m0] by auto
  then show ?case using Cons.IH by simp
qed

lemma getTools_names:
  "map name (getTools (registerTools defs empty_registry)) = map fst (toolMap (registerTools defs empty_registry))"
proof -
  have "\<forall>(k, d) \<in> set (toolMap (registerTools defs (empty_registry :: 'a registry))). name (tool d) = k"
    using registerTools_named [of "[]" defs] by (simp add: registerTools_def empty_registry_def)
  then show ?thesis by (auto simp: getTools_def)
qed

lemma getTools_registerAliases: "getTools (registerAliases al reg) = getTools reg"
  by (simp add: getTools_def registerAliases_def)

lemma toolMap_registerAliases: "toolMap (registerAliases al reg) = toolMap reg"
  by (simp add: registerAliases_def)

lemma registered_names:
  "set (map name (getTools (registerTools defs empty_registry))) = (\<lambda>d. name (tool d)) ` set defs"
  using registerTools_keys [of "[]" defs]
  by (simp add: getTools_names) (simp add: registerTools_def empty_registry_def)

text \<open>
  Claim C1, as the code has it: the guard is \<open>depth > MAX_RECURSION_DEPTH\<close>, so every call
  with a depth above the maximum (4 or more) fails with the recursion-limit error, leaves the
  world untouched and invokes no handler, while a call at a depth up to and including the
  maximum looks the handler up and invokes it.
\<close>

theorem handleTool_depth_guard:
  "(depth > MAX_RECURSION_DEPTH \<longrightarrow> handleTool reg nm a depth s = (Inl recursion_error, s)) \<and>
   (depth \<le> MAX_RECURSION_DEPTH \<and> getHandler reg nm = Some h \<longrightarrow>
      handleTool reg nm a depth s = (fst (h a depth (fst s)), (snd (h a depth (fst s)), snd s @ [Invoked nm a depth])))"
  by (auto simp: handleTool_def split: prod.splits)

text \<open>
  Claim C1 as stated fails at depth 3, the maximum itself: the registered handler of
  \<open>tap\<close> is invoked and its result returned.
\<close>

theorem handleTool_at_max_depth_counterexample:
  "handleTool demo_registry ''tap'' [] MAX_RECURSION_DEPTH (0, [])
     = (Inr (text_response ''Tapped''), (1, [Invoked ''tap'' [] 3]))"
  by (simp add: handleTool_def demo_registry_def registerTools_def empty_registry_def tap_def_def
      getHandler_def tap_stub_def MAX_RECURSION_DEPTH_def)

text \<open>Claim C1, amended: depth 4 is rejected and depth 3 is served, on the example registry.\<close>

theorem handleTool_depth_guard_witness:
  "handleTool demo_registry ''tap'' [] 4 (0, []) = (Inl recursion_error, (0, []))
   \<and> handleTool demo_registry ''tap'' [] 3 (0, []) = (Inr (text_response ''Tapped''), (1, [Invoked ''tap'' [] 3]))"
proof -
  have g: "getHandler demo_registry ''tap'' = Some tap_stub"
    by (simp add: demo_registry_def registerTools_def empty_registry_def tap_def_def getHandler_def)
  show ?thesis
    using handleTool_depth_guard [of 4 demo_registry "''tap''" "[]" "(0, [])" tap_stub]
      handleTool_depth_guard [of 3 demo_registry "''tap''" "[]" "(0, [])" tap_stub] g
    by (simp add: MAX_RECURSION_DEPTH_def tap_stub_def)
qed

text \<open>
  Claim C7: \<open>getHandler\<close> of any registry looks the canonical table up first and the alias
  table only when the name is no canonical tool: a name with a canonical definition
  resolves to that definition's handler whatever the alias table holds for it; a name
  without one resolves to the handler of the canonical tool its alias names (to nothing
  when that tool is missing or the alias target is the empty string); a name in neither
  table resolves to nothing. So after \<open>registerAliases({alias: canonical})\<close> on a registry
  whose canonical tools include \<open>canonical\<close> and not \<open>alias\<close>, both names resolve to the same
  handler. \<open>getTools\<close> is unchanged by \<open>registerAliases\<close>: the tool list holds the canonical
  name and not the alias.
\<close>

theorem alias_resolution:
  assumes reg: "reg = registerAliases [(alias, canonical)] (registerTools defs empty_registry)"
    and canon: "canonical \<in> (\<lambda>d. name (tool d)) ` set defs" "canonical \<noteq> []"
    and fresh: "alias \<notin> (\<lambda>d. name (tool d)) ` set defs"
  shows "getHandler reg alias = getHandler reg canonical \<and> getHandler reg canonical \<noteq> None
     \<and> (\<forall>nm d. map_of (toolMap r) nm = Some d \<longrightarrow> getHandler r nm = Some (handler d))
     \<and> (\<forall>nm c. map_of (toolMap r) nm = None \<and> map_of (aliasMap r) nm = Some c \<longrightarrow>
           getHandler r nm = (if c = [] then None else map_option handler (map_of (toolMap r) c)))
     \<and> (\<forall>nm. map_of (toolMap r) nm = None \<and> map_of (aliasMap r) nm = None \<longrightarrow> getHandler r nm = None)
     \<and> getTools (registerAliases aliases r) = getTools r
     \<and> canonical \<in> set (map name (getTools reg)) \<and> alias \<notin> set (map name (getTools reg))"
proof -
  let ?base = "registerTools defs (empty_registry :: 'a registry)"
  have keys: "fst ` set (toolMap ?base) = (\<lambda>d. name (tool d)) ` set defs"
    using registerTools_keys [of "[]" defs] by (simp add: registerTools_def empty_registry_def)
  have tm: "toolMap reg = toolMap ?base" by (simp add: reg toolMap_registerAliases)
  have am: "map_of (aliasMap reg) alias = Some canonical"
    by (simp add: reg registerAliases_def registerTools_def empty_registry_def)
  have none: "map_of (toolMap reg) alias = None"
    using fresh keys tm by (simp add: map_of_eq_None_iff)
  obtain d where d: "map_of (toolMap reg) canonical = Some d"
    using canon(1) keys tm by (metis map_of_eq_None_iff not_Some_eq)
  have 1: "getHandler reg alias = Some (handler d)"
    using am none d canon(2) by (simp add: getHandler_def)
  have 2: "getHandler reg canonical = Some (handler d)"
    using d by (simp add: getHandler_def)
  have 3: "\<forall>nm d. map_of (toolMap r) nm = Some d \<longrightarrow> getHandler r nm = Some (handler d)"
    by (simp add: getHandler_def)
  have 4: "\<forall>nm c. map_of (toolMap r) nm = None \<and> map_of (aliasMap r) nm = Some c \<longrightarrow>
           getHandler r nm = (if c = [] then None else map_option handler (map_of (toolMap r) c))"
    by (simp add: getHandler_def)
  have 5: "\<forall>nm. map_of (toolMap r) nm = None \<and> map_of (aliasMap r) nm = None \<longrightarrow> getHandler r nm = None"
    by (simp add: getHandler_def)
  have 6: "getTools (registerAliases aliases r) = getTools r"
    by (rule getTools_registerAliases)
  have names: "set (map name (getTools reg)) = (\<lambda>d. name (tool d)) ` set defs"
    using registered_names [of defs] by (simp add: reg getTools_registerAliases)
  have 7: "canonical \<in> set (map name (getTools reg))" using names canon(1) by simp
  have 8: "alias \<notin> set (map name (getTools reg))" using names fresh by simp
  have 12: "getHandler reg alias = getHandler reg canonical" using 1 2 by simp
  have 13: "getHandler reg canonical \<noteq> None" using 2 by simp
  show ?thesis
    by (rule conjI [OF 12 conjI [OF 13 conjI [OF 3 conjI [OF 4 conjI [OF 5 conjI [OF 6 conjI [OF 7 8]]]]]]])
qed

text \<open>
  Claim C7 on the scenario of the specification, \<open>click\<close> an alias of \<open>tap\<close>, and on a
  registry where \<open>click\<close> is also a canonical tool: there the canonical \<open>click\<close> answers,
  not the alias target \<open>tap\<close>, and the two handlers differ.
\<close>

theorem alias_resolution_witness:
  "getHandler demo_alias_registry ''click'' = getHandler demo_alias_registry ''tap''
   \<and> getHandler demo_alias_registry ''tap'' \<noteq> None
   \<and> ''tap'' \<in> set (map name (getTools demo_alias_registry))
   \<and> ''click'' \<notin> set (map name (getTools demo_alias_registry))
   \<and> map_of (aliasMap shadow_registry) ''click'' = Some ''tap''
   \<and> getHandler shadow_registry ''click'' = Some click_stub
   \<and> getHandler shadow_registry ''tap'' = Some tap_stub
   \<and> click_stub [] 0 0 \<noteq> tap_stub [] 0 0
   \<and> getHandler demo_alias_registry ''swipe'' = None
   \<and> getTools shadow_registry = getTools (registerTools [tap_def, click_def] empty_registry)"
  using alias_resolution [of demo_alias_registry "''click''" "''tap''" "[tap_def]" shadow_registry "[]"]
    alias_resolution [of demo_alias_registry "''click''" "''tap''" "[tap_def]" demo_alias_registry
      "[(''click'', ''tap'')]"]
    alias_resolution [of demo_alias_registry "''click''" "''tap''" "[tap_def]"
      "registerTools [tap_def, click_def] empty_registry" "[(''click'', ''tap'')]"]
  by (simp add: demo_alias_registry_def demo_registry_def tap_def_def click_def_def shadow_registry_def
      registerAliases_def registerTools_def empty_registry_def tap_stub_def click_stub_def)

section \<open>Properties of the flow engine\<close>

lemmas flow_eval =
  run_flow_def flow_of_def plain_step_def demo_ctx_def scripted_def now_def dispatch_def pause_def
  getElements_def run_step_def step_loop.simps attempt_def step_catch_def scroll_fallback_def
  scroll_failed_def predicate_holds_def maxIterations_def hasRepeatCondition_def untilFound_def
  untilNotFound_def truthy_def repeatTimes_def FLOW_ALLOWED_ACTIONS_def FLOW_MAX_STEPS_def
  FLOW_MAX_DURATION_def FLOW_MAX_REPEAT_def mk_result_def stepArgs_def platform_json_def
  currentPlatform_def flow_maxDuration_def result_text_def MAX_RECURSION_DEPTH_def onError_def
  isNotFound_def is_backend_unavailable_def


lemma now_log: "now ctx s = (t, s') \<Longrightarrow> snd s' = snd s"
  by (auto simp: now_def split: prod.splits)

lemma pause_log [simp]: "snd (pause ctx ms s) = snd s"
  by (simp add: pause_def)

lemma getElements_log: "getElements ctx p s = (r, s') \<Longrightarrow> snd s' = snd s"
  by (auto simp: getElements_def split: prod.splits)

lemma dispatch_log: "dispatch ctx k nm a d s = (r, s') \<Longrightarrow> snd s' = snd s @ [Call k nm a d]"
  by (auto simp: dispatch_def split: prod.splits)

lemma scroll_failed_log: "scroll_failed ctx i st stepStart policy e s = (l, s') \<Longrightarrow> snd s' = snd s"
  by (auto simp: scroll_failed_def split: prod.splits dest: now_log)

lemma scroll_fallback_calls:
  assumes "scroll_fallback ctx d cur i st stepStart policy s = (l, s')" and "c \<in> set (snd s')"
  shows "c \<in> set (snd s) \<or> c \<in> step_calls d cur st"
  using assms
  by (auto simp: scroll_fallback_def step_calls_def swipe_args_def
      split: prod.splits sum.splits if_splits
      dest!: scroll_failed_log dispatch_log now_log)

lemma step_catch_calls:
  assumes "step_catch ctx d cur i st stepStart iter e lastResult s = (out, s')" and "c \<in> set (snd s')"
  shows "c \<in> set (snd s) \<or> c \<in> step_calls d cur st"
  using assms
  by (auto simp: step_catch_def split: prod.splits if_splits option.splits
      dest!: now_log dest: scroll_fallback_calls)

lemma attempt_calls:
  assumes "attempt ctx d cur i st iter lastResult s = (out, s')" and "c \<in> set (snd s')"
  shows "c \<in> set (snd s) \<or> c \<in> step_calls d cur st"
proof -
  obtain stepStart s1 where n: "now ctx s = (stepStart, s1)" by (cases "now ctx s")
  obtain r s2 where dp: "dispatch ctx Attempt (action st) (stepArgs cur st) (d + 1) s1 = (r, s2)"
    by (cases "dispatch ctx Attempt (action st) (stepArgs cur st) (d + 1) s1")
  have l2: "snd s2 = snd s @ [Call Attempt (action st) (stepArgs cur st) (d + 1)]"
    using now_log [OF n] dispatch_log [OF dp] by simp
  have base: "c \<in> set (snd s2) \<Longrightarrow> ?thesis"
    by (auto simp: l2 step_calls_def)
  show ?thesis
  proof (cases r)
    case (Inl e)
    then have "step_catch ctx d cur i st stepStart iter e lastResult s2 = (out, s')"
      using assms(1) n dp by (simp add: attempt_def)
    then show ?thesis using step_catch_calls assms(2) base by blast
  next
    case (Inr res)
    obtain t s3 where n3: "now ctx s2 = (t, s3)" by (cases "now ctx s2")
    obtain er s4 where ge: "getElements ctx cur s3 = (er, s4)" by (cases "getElements ctx cur s3")
    have l4: "snd s4 = snd s2" "snd s3 = snd s2"
      using now_log [OF n3] getElements_log [OF ge] by simp_all
    let ?lr = "Some (mk_result i st True (String_slice ctx 200 (result_text ctx res)) (t - stepStart))"
    have "snd s' = snd s2 \<or> step_catch ctx d cur i st stepStart iter (projl er) ?lr s4 = (out, s')"
      using assms(1) n dp Inr n3 ge l4
      by (auto simp: attempt_def Let_def split: sum.splits if_splits)
    then show ?thesis using step_catch_calls [of ctx d cur i st stepStart iter _ ?lr s4 out s' c] assms(2) base l4 by auto
  qed
qed


lemma step_loop_calls:
  "step_loop ctx d cur flowStart maxDuration i st iter lastResult s = (out, s') \<Longrightarrow>
   c \<in> set (snd s') \<Longrightarrow> c \<in> set (snd s) \<or> c \<in> step_calls d cur st"
proof (induction ctx d cur flowStart maxDuration i st iter lastResult s rule: step_loop.induct)
  case (1 ctx d cur flowStart maxDuration i st iter lastResult s)
  show ?case
  proof (cases "iter < maxIterations st")
    case False
    then show ?thesis using "1.prems" by (simp add: step_loop.simps)
  next
    case True
    obtain t s1 where n: "now ctx s = (t, s1)" by (cases "now ctx s")
    have l1: "snd s1 = snd s" using now_log [OF n] .
    show ?thesis
    proof (cases "t - flowStart > maxDuration")
      case True
      then show ?thesis using "1.prems" \<open>iter < maxIterations st\<close> n l1
        by (simp add: step_loop.simps)
    next
      case False
      obtain o2 s2 where a: "attempt ctx d cur i st iter lastResult s1 = (o2, s2)"
        by (cases "attempt ctx d cur i st iter lastResult s1")
      have a2: "\<And>x. x \<in> set (snd s2) \<Longrightarrow> x \<in> set (snd s) \<or> x \<in> step_calls d cur st"
        using attempt_calls [OF a] l1 by simp
      show ?thesis
      proof (cases o2)
        case (Continue l)
        have "step_loop ctx d cur flowStart maxDuration i st (iter + 1) l s2 = (out, s')"
          using "1.prems"(1) True n False a Continue by (simp add: step_loop.simps [of _ _ _ _ _ _ _ iter])
        then have "c \<in> set (snd s2) \<or> c \<in> step_calls d cur st"
          using "1.IH" [OF True n [symmetric] False a [symmetric] Continue] "1.prems"(2) by blast
        then show ?thesis using a2 by blast
      next
        case (Break l)
        then have "s' = s2" using "1.prems"(1) True n False a by (simp add: step_loop.simps)
        then show ?thesis using a2 "1.prems"(2) by blast
      next
        case (ReturnFlow r)
        then have "s' = s2" using "1.prems"(1) True n False a by (simp add: step_loop.simps)
        then show ?thesis using a2 "1.prems"(2) by blast
      qed
    qed
  qed
qed


text \<open>The repeat loop ends by leaving the loop or by returning, never in the middle of an iteration.\<close>

lemma step_loop_never_continues:
  "step_loop ctx d cur flowStart maxDuration i st iter lastResult s = (out, s') \<Longrightarrow> out \<noteq> Continue l"
proof (induction ctx d cur flowStart maxDuration i st iter lastResult s rule: step_loop.induct)
  case (1 ctx d cur flowStart maxDuration i st iter lastResult s)
  show ?case
  proof (cases "iter < maxIterations st")
    case False
    then show ?thesis using "1.prems" by (auto simp: step_loop.simps)
  next
    case True
    obtain t s1 where n: "now ctx s = (t, s1)" by (cases "now ctx s")
    show ?thesis
    proof (cases "t - flowStart > maxDuration")
      case True
      then show ?thesis using "1.prems" \<open>iter < maxIterations st\<close> n
        by (auto simp: step_loop.simps)
    next
      case False
      obtain o2 s2 where a: "attempt ctx d cur i st iter lastResult s1 = (o2, s2)"
        by (cases "attempt ctx d cur i st iter lastResult s1")
      show ?thesis
      proof (cases o2)
        case (Continue l2)
        have sl: "step_loop ctx d cur flowStart maxDuration i st (iter + 1) l2 s2 = (out, s')"
          using "1.prems"(1) True n False a Continue by (simp add: step_loop.simps [of _ _ _ _ _ _ _ iter])
        from "1.IH" [OF True n [symmetric] False a [symmetric] Continue sl] show ?thesis .
      next
        case (Break l2)
        then show ?thesis using "1.prems"(1) True n False a by (auto simp: step_loop.simps)
      next
        case (ReturnFlow r)
        then show ?thesis using "1.prems"(1) True n False a by (auto simp: step_loop.simps)
      qed
    qed
  qed
qed

lemma run_step_calls:
  assumes "run_step ctx d cur flowStart maxDuration i st results s = (out, s')" and "c \<in> set (snd s')"
  shows "c \<in> set (snd s) \<or> c \<in> step_calls d cur st"
proof -
  obtain o1 s1 where l: "step_loop ctx d cur flowStart maxDuration i st 0 None s = (o1, s1)"
    by (cases "step_loop ctx d cur flowStart maxDuration i st 0 None s")
  have "s' = s1" using assms(1) l
    by (auto simp: run_step_def split: iter_outcome.splits option.splits if_splits)
  then show ?thesis using step_loop_calls [OF l] assms(2) by blast
qed

lemma flow_loop_calls:
  "flow_loop ctx d cur flowStart maxDuration i steps results s = (out, s') \<Longrightarrow>
   c \<in> set (snd s') \<Longrightarrow> c \<in> set (snd s) \<or> (\<exists>st \<in> set steps. c \<in> step_calls d cur st)"
proof (induction steps arbitrary: i results s)
  case Nil
  then show ?case by simp
next
  case (Cons st rest)
  obtain t s1 where n: "now ctx s = (t, s1)" by (cases "now ctx s")
  have l1: "snd s1 = snd s" using now_log [OF n] .
  show ?case
  proof (cases "t - flowStart > maxDuration")
    case True
    then show ?thesis using Cons.prems n l1 by simp
  next
    case False
    obtain stop results' s2 where r: "run_step ctx d cur flowStart maxDuration i st results s1 = ((stop, results'), s2)"
      by (cases "run_step ctx d cur flowStart maxDuration i st results s1") auto
    have r2: "\<And>x. x \<in> set (snd s2) \<Longrightarrow> x \<in> set (snd s) \<or> x \<in> step_calls d cur st"
      using run_step_calls [OF r] l1 by simp
    show ?thesis
    proof (cases stop)
      case True
      then have "s' = s2" using Cons.prems(1) n False r by simp
      then show ?thesis using r2 Cons.prems(2) by auto
    next
      case f: False
      then have "flow_loop ctx d cur flowStart maxDuration (i + 1) rest results' s2 = (out, s')"
        using Cons.prems(1) n False r by simp
      then have "c \<in> set (snd s2) \<or> (\<exists>st \<in> set rest. c \<in> step_calls d cur st)"
        using Cons.IH Cons.prems(2) by blast
      then show ?thesis using r2 by auto
    qed
  qed
qed

lemma run_flow_calls:
  assumes "run_flow ctx fargs depth s = (r, s')" and "c \<in> set (snd s')"
  shows "c \<in> set (snd s) \<or>
         (\<exists>steps. fa_steps fargs = Some steps \<and>
            (\<exists>st \<in> set steps. c \<in> step_calls depth (currentPlatform ctx fargs s) st))"
proof (cases "snd s' = snd s")
  case True
  then show ?thesis using assms(2) by simp
next
  case False
  then obtain steps where st: "fa_steps fargs = Some steps"
    using assms(1) by (auto simp: run_flow_def split: if_splits option.splits)
  obtain flowStart s1 where n: "now ctx s = (flowStart, s1)" by (cases "now ctx s")
  obtain results s2 where fl: "flow_loop ctx depth (currentPlatform ctx fargs s) flowStart
      (flow_maxDuration fargs) 0 steps [] s1 = (results, s2)"
    by (cases "flow_loop ctx depth (currentPlatform ctx fargs s) flowStart (flow_maxDuration fargs) 0 steps [] s1")
  obtain t s3 where n3: "now ctx s2 = (t, s3)" by (cases "now ctx s2")
  have "s' = s3" using assms(1) False st n fl n3
    by (auto simp: run_flow_def split: if_splits option.splits)
  then have "snd s' = snd s2" using now_log [OF n3] by simp
  then show ?thesis using flow_loop_calls [OF fl] assms(2) now_log [OF n] st by auto
qed

text \<open>
  Claim C10: every call that \<open>run_flow\<close> makes to the dispatcher carries the key
  \<open>platform\<close> bound to the platform resolved once for the flow, at depth + 1; and every
  call that dispatches a step (the attempt, or the retry after a scroll) has the name of
  that step and exactly its declared arguments with \<open>platform\<close> overwritten.
\<close>

theorem run_flow_platform_override:
  assumes "run_flow ctx fargs depth (w, []) = (r, (w', calls))" and "c \<in> set calls"
  shows "map_of (call_args c) ''platform'' = Some (platform_json (currentPlatform ctx fargs (w, []))) \<and>
         call_depth c = depth + 1 \<and>
         (call_kind c \<noteq> FallbackSwipe \<longrightarrow>
            (\<exists>steps st. fa_steps fargs = Some steps \<and> st \<in> set steps \<and> call_name c = action st \<and>
               call_args c = AList.update ''platform'' (platform_json (currentPlatform ctx fargs (w, [])))
                               (case step_args st of None \<Rightarrow> [] | Some a \<Rightarrow> a)))"
proof -
  have "\<exists>steps. fa_steps fargs = Some steps \<and>
          (\<exists>st \<in> set steps. c \<in> step_calls depth (currentPlatform ctx fargs (w, [])) st)"
    using run_flow_calls [OF assms(1), of c] assms(2) by simp
  then obtain steps st where st: "fa_steps fargs = Some steps" "st \<in> set steps"
      "c \<in> step_calls depth (currentPlatform ctx fargs (w, [])) st"
    by blast
  show ?thesis using st
    by (auto simp: step_calls_def swipe_args_def stepArgs_def AList.update_conv')
qed

text \<open>
  Claim C2: a flow with a step whose action is outside the allow-list is rejected before
  anything runs. The world and the call log are returned unchanged (no dispatch, no
  capture, no clock reading), the outcome is never a report of step results, and when the
  depth and the number of steps pass their own checks the outcome is the message naming a
  disallowed action.
\<close>

theorem run_flow_rejects_disallowed_action:
  assumes "fa_steps fargs = Some steps" and "st \<in> set steps"
    and "action st \<notin> set FLOW_ALLOWED_ACTIONS"
  shows "snd (run_flow ctx fargs depth s) = s \<and>
         (\<forall>results t. fst (run_flow ctx fargs depth s) \<noteq> Inr (FlowReport results t)) \<and>
         (depth \<le> MAX_RECURSION_DEPTH \<and> length steps \<le> FLOW_MAX_STEPS \<longrightarrow>
            (\<exists>bad \<in> set steps. action bad \<notin> set FLOW_ALLOWED_ACTIONS \<and>
               fst (run_flow ctx fargs depth s) =
                 Inr (FlowMessage (''Action '' @ [CHR 0x22] @ action bad @ [CHR 0x22] @
                        '' is not allowed in flows. Allowed: '' @ join '', '' FLOW_ALLOWED_ACTIONS))))"
proof -
  obtain bad where bad: "find (\<lambda>st. action st \<notin> set FLOW_ALLOWED_ACTIONS) steps = Some bad"
    using assms(2,3) by (cases "find (\<lambda>st. action st \<notin> set FLOW_ALLOWED_ACTIONS) steps") (auto simp: find_None_iff)
  then have "bad \<in> set steps \<and> action bad \<notin> set FLOW_ALLOWED_ACTIONS"
    by (auto simp: find_Some_iff)
  moreover have "steps \<noteq> []" using assms(2) by auto
  ultimately show ?thesis using assms(1) bad
    by (auto simp: run_flow_def)
qed


text \<open>
  Claim C10 on a flow whose only step asks for \<open>ios\<close> while the active platform is
  \<open>android\<close>: the call goes out with \<open>platform = android\<close>.
\<close>

theorem run_flow_platform_override_witness:
  "run_flow (demo_ctx [] (Inr []))
      (flow_of [plain_step ''tap'' [(''platform'', JStr ''ios''), (''x'', JNum 1)]]) 0 (0, [])
     = (Inr (FlowReport [\<lparr>r_step = 1, r_action = ''tap'', r_label = None, r_success = True,
                          r_message = ''ok'', r_durationMs = 0\<rparr>] 0),
        (1, [Call Attempt ''tap'' [(''platform'', JStr ''android''), (''x'', JNum 1)] 1]))
   \<and> map_of [(''platform'', JStr ''android''), (''x'', JNum 1)] ''platform'' = Some (JStr ''android'')"
proof -
  let ?c = "Call Attempt ''tap'' [(''platform'', JStr ''android''), (''x'', JNum 1)] 1"
  have run: "run_flow (demo_ctx [] (Inr []))
      (flow_of [plain_step ''tap'' [(''platform'', JStr ''ios''), (''x'', JNum 1)]]) 0 (0, [])
     = (Inr (FlowReport [\<lparr>r_step = 1, r_action = ''tap'', r_label = None, r_success = True,
                          r_message = ''ok'', r_durationMs = 0\<rparr>] 0), (1, [?c]))"
    by (simp add: flow_eval)
  have "?c \<in> set [?c]" by simp
  from run_flow_platform_override [OF run this]
  have m: "map_of [(''platform'', JStr ''android''), (''x'', JNum 1)] ''platform'' = Some (JStr ''android'')"
    by (simp add: currentPlatform_def flow_of_def demo_ctx_def platform_json_def plain_step_def)
  show ?thesis by (rule conjI [OF run m])
qed

text \<open>
  Claim C2 on a two-step flow whose second action is \<open>run_flow\<close>: nothing is dispatched,
  not even the allowed first step.
\<close>

theorem run_flow_rejects_disallowed_action_witness:
  "snd (run_flow (demo_ctx [] (Inr [])) (flow_of [plain_step ''tap'' [], plain_step ''run_flow'' []]) 0 (0, []))
     = (0, []) \<and>
   fst (run_flow (demo_ctx [] (Inr [])) (flow_of [plain_step ''tap'' [], plain_step ''run_flow'' []]) 0 (0, []))
     = Inr (FlowMessage (''Action '' @ [CHR 0x22] @ ''run_flow'' @ [CHR 0x22] @
              '' is not allowed in flows. Allowed: '' @ join '', '' FLOW_ALLOWED_ACTIONS))"
proof -
  have 1: "fa_steps (flow_of [plain_step ''tap'' [], plain_step ''run_flow'' []])
             = Some [plain_step ''tap'' [], plain_step ''run_flow'' []]"
    by (simp add: flow_of_def)
  have 2: "plain_step ''run_flow'' [] \<in> set [plain_step ''tap'' [], plain_step ''run_flow'' []]"
    by simp
  have 3: "action (plain_step ''run_flow'' []) \<notin> set FLOW_ALLOWED_ACTIONS"
    by (simp add: plain_step_def FLOW_ALLOWED_ACTIONS_def)
  from run_flow_rejects_disallowed_action [OF 1 2 3, of "demo_ctx [] (Inr [])" 0 "(0, [])"]
  show ?thesis
    by (auto simp: MAX_RECURSION_DEPTH_def FLOW_MAX_STEPS_def plain_step_def FLOW_ALLOWED_ACTIONS_def)
qed



lemma count_kind_append [simp]: "count_kind k (xs @ ys) = count_kind k xs + count_kind k ys"
  by (simp add: count_kind_def)

lemma count_kind_Cons [simp]:
  "count_kind k (Call k' nm a d # xs) = (if k' = k then 1 else 0) + count_kind k xs"
  by (simp add: count_kind_def)

lemma count_kind_Nil [simp]: "count_kind k [] = 0"
  by (simp add: count_kind_def)

















section \<open>Properties of the batch executor\<close>


lemma string_of_nat_digit: "n < 10 \<Longrightarrow> string_of_nat n = [''0123456789'' ! n]"
  by (simp add: string_of_nat.simps [of n])

lemma batch_loop_sequential:
  "batch_loop ctx depth stop cmds results s = (results', s') \<Longrightarrow>
   \<exists>k new. k \<le> length cmds \<and> results' = results @ new \<and> length new = k \<and>
      snd s' = snd s @ map (call_of depth) (take k cmds) \<and>
      map b_command new = map cmd_name (take k cmds) \<and>
      (\<not> stop \<longrightarrow> k = length cmds) \<and>
      (stop \<longrightarrow> (\<forall>r \<in> set (butlast new). b_success r) \<and>
                 (k < length cmds \<longrightarrow> new \<noteq> [] \<and> \<not> b_success (last new)))"
proof (induction cmds arbitrary: results s)
  case Nil
  then show ?case by simp
next
  case (Cons cmd rest)
  obtain r s1 where dp: "dispatch ctx Attempt (cmd_name cmd) (cmd_args cmd) (depth + 1) s = (r, s1)"
    by (cases "dispatch ctx Attempt (cmd_name cmd) (cmd_args cmd) (depth + 1) s")
  have l1: "snd s1 = snd s @ [call_of depth cmd]"
    using dispatch_log [OF dp] by (simp add: call_of_def)
  let ?entry = "\<lparr>b_command = cmd_name cmd, b_success = (\<not> isl r),
                  b_result = (case r of Inr v \<Rightarrow> result_text ctx v | Inl e \<Rightarrow> message e)\<rparr>"
  show ?case
  proof (cases "stop \<and> isl r")
    case True
    then have "results' = results @ [?entry]" "s' = s1"
      using Cons.prems dp by (auto split: sum.splits)
    then show ?thesis using l1 True
      by (intro exI [of _ 1] exI [of _ "[?entry]"]) (auto simp: take_Suc_Cons)
  next
    case False
    then have "batch_loop ctx depth stop rest (results @ [?entry]) s1 = (results', s')"
      using Cons.prems dp by (auto split: sum.splits)
    from Cons.IH [OF this] obtain k new where kn: "k \<le> length rest" "results' = (results @ [?entry]) @ new"
      "length new = k" "snd s' = snd s1 @ map (call_of depth) (take k rest)"
      "map b_command new = map cmd_name (take k rest)"
      "\<not> stop \<longrightarrow> k = length rest"
      "stop \<longrightarrow> (\<forall>r \<in> set (butlast new). b_success r) \<and>
                 (k < length rest \<longrightarrow> new \<noteq> [] \<and> \<not> b_success (last new))"
      by blast
    have ok: "stop \<longrightarrow> b_success ?entry" using False by simp
    show ?thesis
      using kn l1 ok
      by (intro exI [of _ "Suc k"] exI [of _ "?entry # new"]) (auto simp: butlast_append)
  qed
qed

lemma batch_scenario_stop:
  assumes "dispatch ctx Attempt (cmd_name c1) (cmd_args c1) (depth + 1) s = (Inr r1, s1)"
    and "dispatch ctx Attempt (cmd_name c2) (cmd_args c2) (depth + 1) s1 = (Inl e2, s2)"
  shows "batch_loop ctx depth True [c1, c2, c3] [] s =
           ([\<lparr>b_command = cmd_name c1, b_success = True, b_result = result_text ctx r1\<rparr>,
             \<lparr>b_command = cmd_name c2, b_success = False, b_result = message e2\<rparr>], s2)"
  using assms by simp

lemma batch_scenario_continue:
  assumes "dispatch ctx Attempt (cmd_name c1) (cmd_args c1) (depth + 1) s = (Inr r1, s1)"
    and "dispatch ctx Attempt (cmd_name c2) (cmd_args c2) (depth + 1) s1 = (Inl e2, s2)"
    and "dispatch ctx Attempt (cmd_name c3) (cmd_args c3) (depth + 1) s2 = (Inr r3, s3)"
  shows "batch_loop ctx depth False [c1, c2, c3] [] s =
           ([\<lparr>b_command = cmd_name c1, b_success = True, b_result = result_text ctx r1\<rparr>,
             \<lparr>b_command = cmd_name c2, b_success = False, b_result = message e2\<rparr>,
             \<lparr>b_command = cmd_name c3, b_success = True, b_result = result_text ctx r3\<rparr>], s3)"
  using assms by simp

lemma batch_summary_stop:
  "batch_summary [\<lparr>b_command = a, b_success = True, b_result = x\<rparr>,
                  \<lparr>b_command = b, b_success = False, b_result = y\<rparr>] (Suc (Suc (Suc 0)))
     = ''Batch: 2/3 executed, 1 failed''"
  by (simp add: batch_summary_def batch_failed_def string_of_nat_digit numeral_3_eq_3 [symmetric])

lemma batch_summary_continue:
  "batch_summary [\<lparr>b_command = a, b_success = True, b_result = x\<rparr>,
                  \<lparr>b_command = b, b_success = False, b_result = y\<rparr>,
                  \<lparr>b_command = c, b_success = True, b_result = z\<rparr>] (Suc (Suc (Suc 0)))
     = ''Batch: 3/3 executed, 1 failed''"
  by (simp add: batch_summary_def batch_failed_def string_of_nat_digit numeral_3_eq_3 [symmetric])


text \<open>
  Claim C6. The flag is \<open>args.stopOnError !== false\<close>: it is off exactly when the caller
  sent the boolean \<open>false\<close>, and on when the field is absent or holds anything else. The
  commands that ran are a prefix of the list, dispatched in order at depth + 1, one entry
  each; with the flag off the prefix is the whole list; with it on, every entry but the
  last is a success and a prefix that is cut short ends in a failure. On three commands
  of which the first succeeds and the second fails: unless the caller sent
  \<open>stopOnError = false\<close>, exactly two are dispatched and the summary reads
  \<open>2/3 executed, 1 failed\<close>; when the caller sent \<open>stopOnError = false\<close>, and the third
  succeeds, all three are dispatched and the summary reads \<open>3/3 executed, 1 failed\<close>.
  When the caller sent \<open>stopOnError = false\<close>, every command of any list is dispatched.
\<close>

theorem batch_sequential_stop_on_error:
  "(stopOnError bargs \<longleftrightarrow> ba_stopOnError bargs \<noteq> Some (JBool False))
   \<and> (\<forall>cmds results s'.
         batch_loop ctx depth stop cmds [] s = (results, s') \<longrightarrow>
         (\<exists>k. k \<le> length cmds \<and> length results = k \<and>
              snd s' = snd s @ map (call_of depth) (take k cmds) \<and>
              map b_command results = map cmd_name (take k cmds) \<and>
              (\<not> stop \<longrightarrow> k = length cmds) \<and>
              (stop \<longrightarrow> (\<forall>r \<in> set (butlast results). b_success r) \<and>
                         (k < length cmds \<longrightarrow> results \<noteq> [] \<and> \<not> b_success (last results)))))
   \<and> (\<forall>c1 c2 c3 r1 s1 e2 s2.
         depth \<le> MAX_RECURSION_DEPTH \<and> ba_commands bargs = Some [c1, c2, c3] \<and>
         ba_stopOnError bargs \<noteq> Some (JBool False) \<and>
         dispatch ctx Attempt (cmd_name c1) (cmd_args c1) (depth + 1) s = (Inr r1, s1) \<and>
         dispatch ctx Attempt (cmd_name c2) (cmd_args c2) (depth + 1) s1 = (Inl e2, s2) \<longrightarrow>
         batch_commands ctx bargs depth s =
           (Inr (text_response
                  (''Batch: 2/3 executed, 1 failed'' @ [CHR 0x0A, CHR 0x0A] @
                   batch_output
                     [\<lparr>b_command = cmd_name c1, b_success = True, b_result = result_text ctx r1\<rparr>,
                      \<lparr>b_command = cmd_name c2, b_success = False, b_result = message e2\<rparr>])), s2) \<and>
         snd s2 = snd s @ [call_of depth c1, call_of depth c2])
   \<and> (\<forall>c1 c2 c3 r1 s1 e2 s2 r3 s3.
         depth \<le> MAX_RECURSION_DEPTH \<and> ba_commands bargs = Some [c1, c2, c3] \<and>
         ba_stopOnError bargs = Some (JBool False) \<and>
         dispatch ctx Attempt (cmd_name c1) (cmd_args c1) (depth + 1) s = (Inr r1, s1) \<and>
         dispatch ctx Attempt (cmd_name c2) (cmd_args c2) (depth + 1) s1 = (Inl e2, s2) \<and>
         dispatch ctx Attempt (cmd_name c3) (cmd_args c3) (depth + 1) s2 = (Inr r3, s3) \<longrightarrow>
         batch_commands ctx bargs depth s =
           (Inr (text_response
                  (''Batch: 3/3 executed, 1 failed'' @ [CHR 0x0A, CHR 0x0A] @
                   batch_output
                     [\<lparr>b_command = cmd_name c1, b_success = True, b_result = result_text ctx r1\<rparr>,
                      \<lparr>b_command = cmd_name c2, b_success = False, b_result = message e2\<rparr>,
                      \<lparr>b_command = cmd_name c3, b_success = True, b_result = result_text ctx r3\<rparr>])), s3) \<and>
         snd s3 = snd s @ [call_of depth c1, call_of depth c2, call_of depth c3])
   \<and> (\<forall>cmds. depth \<le> MAX_RECURSION_DEPTH \<and> ba_commands bargs = Some cmds \<and>
         ba_stopOnError bargs = Some (JBool False) \<longrightarrow>
         snd (snd (batch_commands ctx bargs depth s)) = snd s @ map (call_of depth) cmds)"
proof (intro conjI)
  show "stopOnError bargs \<longleftrightarrow> ba_stopOnError bargs \<noteq> Some (JBool False)"
    by (simp add: stopOnError_def)
next
  show "\<forall>cmds results s'.
         batch_loop ctx depth stop cmds [] s = (results, s') \<longrightarrow>
         (\<exists>k. k \<le> length cmds \<and> length results = k \<and>
              snd s' = snd s @ map (call_of depth) (take k cmds) \<and>
              map b_command results = map cmd_name (take k cmds) \<and>
              (\<not> stop \<longrightarrow> k = length cmds) \<and>
              (stop \<longrightarrow> (\<forall>r \<in> set (butlast results). b_success r) \<and>
                         (k < length cmds \<longrightarrow> results \<noteq> [] \<and> \<not> b_success (last results))))"
  proof (intro allI impI)
    fix cmds results s'
    assume "batch_loop ctx depth stop cmds [] s = (results, s')"
    from batch_loop_sequential [OF this]
    show "\<exists>k. k \<le> length cmds \<and> length results = k \<and>
              snd s' = snd s @ map (call_of depth) (take k cmds) \<and>
              map b_command results = map cmd_name (take k cmds) \<and>
              (\<not> stop \<longrightarrow> k = length cmds) \<and>
              (stop \<longrightarrow> (\<forall>r \<in> set (butlast results). b_success r) \<and>
                         (k < length cmds \<longrightarrow> results \<noteq> [] \<and> \<not> b_success (last results)))"
      by auto
  qed
next
  show "\<forall>c1 c2 c3 r1 s1 e2 s2.
         depth \<le> MAX_RECURSION_DEPTH \<and> ba_commands bargs = Some [c1, c2, c3] \<and>
         ba_stopOnError bargs \<noteq> Some (JBool False) \<and>
         dispatch ctx Attempt (cmd_name c1) (cmd_args c1) (depth + 1) s = (Inr r1, s1) \<and>
         dispatch ctx Attempt (cmd_name c2) (cmd_args c2) (depth + 1) s1 = (Inl e2, s2) \<longrightarrow>
         batch_commands ctx bargs depth s =
           (Inr (text_response
                  (''Batch: 2/3 executed, 1 failed'' @ [CHR 0x0A, CHR 0x0A] @
                   batch_output
                     [\<lparr>b_command = cmd_name c1, b_success = True, b_result = result_text ctx r1\<rparr>,
                      \<lparr>b_command = cmd_name c2, b_success = False, b_result = message e2\<rparr>])), s2) \<and>
         snd s2 = snd s @ [call_of depth c1, call_of depth c2]"
  proof (intro allI impI, elim conjE)
    fix c1 c2 c3 r1 s1 e2 s2
    assume h: "depth \<le> MAX_RECURSION_DEPTH" "ba_commands bargs = Some [c1, c2, c3]"
      "ba_stopOnError bargs \<noteq> Some (JBool False)"
      "dispatch ctx Attempt (cmd_name c1) (cmd_args c1) (depth + 1) s = (Inr r1, s1)"
      "dispatch ctx Attempt (cmd_name c2) (cmd_args c2) (depth + 1) s1 = (Inl e2, s2)"
    have lg: "snd s2 = snd s @ [call_of depth c1, call_of depth c2]"
      using dispatch_log [OF h(4)] dispatch_log [OF h(5)] by (simp add: call_of_def)
    have "batch_commands ctx bargs depth s =
           (Inr (text_response
                  (''Batch: 2/3 executed, 1 failed'' @ [CHR 0x0A, CHR 0x0A] @
                   batch_output
                     [\<lparr>b_command = cmd_name c1, b_success = True, b_result = result_text ctx r1\<rparr>,
                      \<lparr>b_command = cmd_name c2, b_success = False, b_result = message e2\<rparr>])), s2)"
      using h(1,2,3) batch_scenario_stop [OF h(4,5), of c3] batch_summary_stop
      by (simp add: batch_commands_def stopOnError_def del: batch_loop.simps)
    with lg show "batch_commands ctx bargs depth s =
           (Inr (text_response
                  (''Batch: 2/3 executed, 1 failed'' @ [CHR 0x0A, CHR 0x0A] @
                   batch_output
                     [\<lparr>b_command = cmd_name c1, b_success = True, b_result = result_text ctx r1\<rparr>,
                      \<lparr>b_command = cmd_name c2, b_success = False, b_result = message e2\<rparr>])), s2) \<and>
         snd s2 = snd s @ [call_of depth c1, call_of depth c2]" by (rule conjI [rotated])
  qed
next
  show "\<forall>c1 c2 c3 r1 s1 e2 s2 r3 s3.
         depth \<le> MAX_RECURSION_DEPTH \<and> ba_commands bargs = Some [c1, c2, c3] \<and>
         ba_stopOnError bargs = Some (JBool False) \<and>
         dispatch ctx Attempt (cmd_name c1) (cmd_args c1) (depth + 1) s = (Inr r1, s1) \<and>
         dispatch ctx Attempt (cmd_name c2) (cmd_args c2) (depth + 1) s1 = (Inl e2, s2) \<and>
         dispatch ctx Attempt (cmd_name c3) (cmd_args c3) (depth + 1) s2 = (Inr r3, s3) \<longrightarrow>
         batch_commands ctx bargs depth s =
           (Inr (text_response
                  (''Batch: 3/3 executed, 1 failed'' @ [CHR 0x0A, CHR 0x0A] @
                   batch_output
                     [\<lparr>b_command = cmd_name c1, b_success = True, b_result = result_text ctx r1\<rparr>,
                      \<lparr>b_command = cmd_name c2, b_success = False, b_result = message e2\<rparr>,
                      \<lparr>b_command = cmd_name c3, b_success = True, b_result = result_text ctx r3\<rparr>])), s3) \<and>
         snd s3 = snd s @ [call_of depth c1, call_of depth c2, call_of depth c3]"
  proof (intro allI impI, elim conjE)
    fix c1 c2 c3 r1 s1 e2 s2 r3 s3
    assume h: "depth \<le> MAX_RECURSION_DEPTH" "ba_commands bargs = Some [c1, c2, c3]"
      "ba_stopOnError bargs = Some (JBool False)"
      "dispatch ctx Attempt (cmd_name c1) (cmd_args c1) (depth + 1) s = (Inr r1, s1)"
      "dispatch ctx Attempt (cmd_name c2) (cmd_args c2) (depth + 1) s1 = (Inl e2, s2)"
      "dispatch ctx Attempt (cmd_name c3) (cmd_args c3) (depth + 1) s2 = (Inr r3, s3)"
    have lg: "snd s3 = snd s @ [call_of depth c1, call_of depth c2, call_of depth c3]"
      using dispatch_log [OF h(4)] dispatch_log [OF h(5)] dispatch_log [OF h(6)] by (simp add: call_of_def)
    have "batch_commands ctx bargs depth s =
           (Inr (text_response
                  (''Batch: 3/3 executed, 1 failed'' @ [CHR 0x0A, CHR 0x0A] @
                   batch_output
                     [\<lparr>b_command = cmd_name c1, b_success = True, b_result = result_text ctx r1\<rparr>,
                      \<lparr>b_command = cmd_name c2, b_success = False, b_result = message e2\<rparr>,
                      \<lparr>b_command = cmd_name c3, b_success = True, b_result = result_text ctx r3\<rparr>])), s3)"
      using h(1,2,3) batch_scenario_continue [OF h(4,5,6)] batch_summary_continue
      by (simp add: batch_commands_def stopOnError_def del: batch_loop.simps)
    with lg show "batch_commands ctx bargs depth s =
           (Inr (text_response
                  (''Batch: 3/3 executed, 1 failed'' @ [CHR 0x0A, CHR 0x0A] @
                   batch_output
                     [\<lparr>b_command = cmd_name c1, b_success = True, b_result = result_text ctx r1\<rparr>,
                      \<lparr>b_command = cmd_name c2, b_success = False, b_result = message e2\<rparr>,
                      \<lparr>b_command = cmd_name c3, b_success = True, b_result = result_text ctx r3\<rparr>])), s3) \<and>
         snd s3 = snd s @ [call_of depth c1, call_of depth c2, call_of depth c3]" by (rule conjI [rotated])
  qed
next
  show "\<forall>cmds. depth \<le> MAX_RECURSION_DEPTH \<and> ba_commands bargs = Some cmds \<and>
         ba_stopOnError bargs = Some (JBool False) \<longrightarrow>
         snd (snd (batch_commands ctx bargs depth s)) = snd s @ map (call_of depth) cmds"
  proof (intro allI impI, elim conjE)
    fix cmds
    assume h: "depth \<le> MAX_RECURSION_DEPTH" "ba_commands bargs = Some cmds"
      "ba_stopOnError bargs = Some (JBool False)"
    obtain results s' where bl: "batch_loop ctx depth False cmds [] s = (results, s')"
      by (cases "batch_loop ctx depth False cmds [] s")
    from batch_loop_sequential [OF bl]
    have lg: "snd s' = snd s @ map (call_of depth) cmds" by auto
    show "snd (snd (batch_commands ctx bargs depth s)) = snd s @ map (call_of depth) cmds"
    proof (cases "cmds = []")
      case True
      then show ?thesis using h by (simp add: batch_commands_def)
    next
      case False
      then show ?thesis using h bl lg
        by (simp add: batch_commands_def stopOnError_def del: batch_loop.simps)
    qed
  qed
qed

text \<open>
  Claim C6 on the scenario of the specification, \<open>ok_tool\<close>, \<open>failing_tool\<close>,
  \<open>ok_tool\<close>: two calls with \<open>stopOnError\<close> absent, three with \<open>stopOnError = false\<close>.
\<close>

theorem batch_sequential_stop_on_error_witness:
  "snd (batch_commands batch_ctx (batch_of None) 0 (0, []))
     = (2, [Call Attempt ''ok_tool'' [] 1, Call Attempt ''failing_tool'' [] 1])
   \<and> snd (batch_commands batch_ctx (batch_of (Some (JBool False))) 0 (0, []))
     = (3, [Call Attempt ''ok_tool'' [] 1, Call Attempt ''failing_tool'' [] 1, Call Attempt ''ok_tool'' [] 1])
   \<and> stopOnError (batch_of None) \<and> \<not> stopOnError (batch_of (Some (JBool False)))"
  using batch_sequential_stop_on_error [where bargs = "batch_of None" and ctx = batch_ctx and depth = 0
      and s = "(0, [])" and stop = True, THEN conjunct2, THEN conjunct2, THEN conjunct1, rule_format,
      where ?c1.0 = "\<lparr>cmd_name = ''ok_tool'', cmd_arguments = None\<rparr>"
        and ?c2.0 = "\<lparr>cmd_name = ''failing_tool'', cmd_arguments = None\<rparr>"
        and ?c3.0 = "\<lparr>cmd_name = ''ok_tool'', cmd_arguments = None\<rparr>"
        and ?r1.0 = "text_response ''done''" and ?s1.0 = "(1, [Call Attempt ''ok_tool'' [] 1])"
        and ?e2.0 = "JsError GenericError ''boom''"
        and ?s2.0 = "(2, [Call Attempt ''ok_tool'' [] 1, Call Attempt ''failing_tool'' [] 1])"]
    batch_sequential_stop_on_error [where bargs = "batch_of (Some (JBool False))" and ctx = batch_ctx
      and depth = 0 and s = "(0, [])" and stop = False, THEN conjunct2, THEN conjunct2, THEN conjunct2,
      THEN conjunct1, rule_format,
      where ?c1.0 = "\<lparr>cmd_name = ''ok_tool'', cmd_arguments = None\<rparr>"
        and ?c2.0 = "\<lparr>cmd_name = ''failing_tool'', cmd_arguments = None\<rparr>"
        and ?c3.0 = "\<lparr>cmd_name = ''ok_tool'', cmd_arguments = None\<rparr>"
        and ?r1.0 = "text_response ''done''" and ?s1.0 = "(1, [Call Attempt ''ok_tool'' [] 1])"
        and ?e2.0 = "JsError GenericError ''boom''"
        and ?s2.0 = "(2, [Call Attempt ''ok_tool'' [] 1, Call Attempt ''failing_tool'' [] 1])"
        and ?r3.0 = "text_response ''done''"
        and ?s3.0 = "(3, [Call Attempt ''ok_tool'' [] 1, Call Attempt ''failing_tool'' [] 1,
                          Call Attempt ''ok_tool'' [] 1])"]
    batch_sequential_stop_on_error [where bargs = "batch_of None", THEN conjunct1]
    batch_sequential_stop_on_error [where bargs = "batch_of (Some (JBool False))", THEN conjunct1]
  by (simp add: batch_of_def batch_ctx_def demo_ctx_def MAX_RECURSION_DEPTH_def
      dispatch_def cmd_args_def call_of_def)


section \<open>Properties of the action hints\<close>


lemma startsWith_self [simp]: "startsWith s s"
  by (induction s) auto

lemma str_includes_suffix: "str_includes (xs @ ys) ys"
proof (induction xs)
  case Nil
  show ?case by (cases ys) auto
next
  case (Cons x xs)
  then show ?case by simp
qed

lemma hints_unavailable_reason: "str_includes (hints_unavailable e) (message e)"
  unfolding hints_unavailable_def using str_includes_suffix [of "hints_header @ [CHR 0x0A] @ ''Unable to fetch UI state for hints: ''" "message e"]
  by simp

lemma generateActionHints_total:
  "\<exists>text st'. generateActionHints dm platform st = (Inr text, st')"
  by (auto simp: generateActionHints_def Let_def split: prod.splits sum.splits)

lemma generateActionHints_capture_failed:
  assumes "hints_capture dm (hints_platform dm platform st) (st\<lparr>device := dm_wait dm 150 (device st)\<rparr>) = (Inl e, st')"
  shows "generateActionHints dm platform st = (Inr (hints_unavailable e), st')"
  using assms by (simp add: generateActionHints_def hints_platform_def Let_def)

lemma hints_capture_cache:
  "hints_capture dm p st = (r, st') \<Longrightarrow> cachedElementsMap st' = cachedElementsMap st"
  by (auto simp: hints_capture_def fetchElements_def split: if_splits prod.splits sum.splits)

lemma tap_at_with_hints:
  assumes "dm_tap dm x y (ta_platform a) (ta_targetPid a) (device st) = (Inr u, d1)"
    and "ta_hints a = Some (JBool True)"
  shows "tap_at dm a x y st =
           (Inr (text_response (''Tapped at ('' @ string_of_int x @ '', '' @ string_of_int y @ '')'' @
                   projr (fst (generateActionHints dm (ta_platform a) (st\<lparr>device := d1\<rparr>))))),
            snd (generateActionHints dm (ta_platform a) (st\<lparr>device := d1\<rparr>)))"
proof -
  obtain h st' where "generateActionHints dm (ta_platform a) (st\<lparr>device := d1\<rparr>) = (Inr h, st')"
    using generateActionHints_total by blast
  then show ?thesis using assms by (simp add: tap_at_def Let_def)
qed

lemma tap_handler_coordinates:
  assumes "ta_index a = None" and "\<not> truthy (ta_text a)" and "\<not> truthy (ta_label a)"
    and "\<not> truthy (ta_resourceId a)" and "ta_x a = Some x" and "ta_y a = Some y"
  shows "tap_handler dm a st = tap_at dm a x y st"
  using assms by (simp add: tap_handler_def tap_by_index_def tap_by_text_def Let_def)


lemma hints_capture_fetch_failed:
  assumes "dm_getUiHierarchy dm p (device st) = (Inl e, d')"
    and "p = ''android'' \<or> p = ''ios'' \<or> p = ''desktop''"
  shows "hints_capture dm p st = (Inl e, st\<lparr>device := d'\<rparr>)"
  using assms by (auto simp: hints_capture_def fetchElements_def)

text \<open>
  Claim C8. \<open>generateActionHints\<close> always resolves to a text. When the capture inside
  its \<open>try\<close> fails with an error, the text is the hints header followed by
  \<open>Unable to fetch UI state for hints:\<close> and the message of that error, and the element
  cache is left as it was; a hierarchy fetch that throws on android, ios or desktop is
  such a failure. A tap whose primary action succeeded and that asked for hints resolves
  to \<open>Tapped at (x, y)\<close> followed by the hints text, which is the unavailable message
  when the capture fails; a tap given by coordinates alone reaches the primary action.
\<close>

theorem hints_best_effort:
  "(\<exists>h st'. generateActionHints dm platform st = (Inr h, st'))
   \<and> (\<forall>e st'.
         hints_capture dm (hints_platform dm platform st) (st\<lparr>device := dm_wait dm 150 (device st)\<rparr>)
           = (Inl e, st') \<longrightarrow>
         generateActionHints dm platform st = (Inr (hints_unavailable e), st') \<and>
         cachedElementsMap st' = cachedElementsMap st \<and>
         str_includes (hints_unavailable e) (message e))
   \<and> (\<forall>p e d'.
         dm_getUiHierarchy dm p (device st) = (Inl e, d') \<and>
         (p = ''android'' \<or> p = ''ios'' \<or> p = ''desktop'') \<longrightarrow>
         hints_capture dm p st = (Inl e, st\<lparr>device := d'\<rparr>))
   \<and> (\<forall>a x y u d1.
         dm_tap dm x y (ta_platform a) (ta_targetPid a) (device st) = (Inr u, d1) \<and>
         ta_hints a = Some (JBool True) \<longrightarrow>
         (\<exists>h st'. tap_at dm a x y st =
            (Inr (text_response (''Tapped at ('' @ string_of_int x @ '', '' @ string_of_int y @ '')'' @ h)), st')) \<and>
         (\<forall>e st2.
            hints_capture dm (hints_platform dm (ta_platform a) (st\<lparr>device := d1\<rparr>))
              (st\<lparr>device := dm_wait dm 150 d1\<rparr>) = (Inl e, st2) \<longrightarrow>
            tap_at dm a x y st =
              (Inr (text_response (''Tapped at ('' @ string_of_int x @ '', '' @ string_of_int y @ '')'' @
                      hints_unavailable e)), st2)))
   \<and> (\<forall>a x y.
         ta_index a = None \<and> \<not> truthy (ta_text a) \<and> \<not> truthy (ta_label a) \<and>
         \<not> truthy (ta_resourceId a) \<and> ta_x a = Some x \<and> ta_y a = Some y \<longrightarrow>
         tap_handler dm a st = tap_at dm a x y st)"
proof (intro conjI)
  show "\<exists>h st'. generateActionHints dm platform st = (Inr h, st')"
    by (rule generateActionHints_total)
next
  show "\<forall>e st'.
         hints_capture dm (hints_platform dm platform st) (st\<lparr>device := dm_wait dm 150 (device st)\<rparr>)
           = (Inl e, st') \<longrightarrow>
         generateActionHints dm platform st = (Inr (hints_unavailable e), st') \<and>
         cachedElementsMap st' = cachedElementsMap st \<and>
         str_includes (hints_unavailable e) (message e)"
  proof (intro allI impI conjI)
    fix e st'
    assume c: "hints_capture dm (hints_platform dm platform st) (st\<lparr>device := dm_wait dm 150 (device st)\<rparr>)
           = (Inl e, st')"
    show "generateActionHints dm platform st = (Inr (hints_unavailable e), st')"
      by (rule generateActionHints_capture_failed [OF c])
    show "cachedElementsMap st' = cachedElementsMap st"
      using hints_capture_cache [OF c] by simp
    show "str_includes (hints_unavailable e) (message e)"
      by (rule hints_unavailable_reason)
  qed
next
  show "\<forall>p e d'.
         dm_getUiHierarchy dm p (device st) = (Inl e, d') \<and>
         (p = ''android'' \<or> p = ''ios'' \<or> p = ''desktop'') \<longrightarrow>
         hints_capture dm p st = (Inl e, st\<lparr>device := d'\<rparr>)"
    using hints_capture_fetch_failed [of dm _ st] by blast
next
  show "\<forall>a x y u d1.
         dm_tap dm x y (ta_platform a) (ta_targetPid a) (device st) = (Inr u, d1) \<and>
         ta_hints a = Some (JBool True) \<longrightarrow>
         (\<exists>h st'. tap_at dm a x y st =
            (Inr (text_response (''Tapped at ('' @ string_of_int x @ '', '' @ string_of_int y @ '')'' @ h)), st')) \<and>
         (\<forall>e st2.
            hints_capture dm (hints_platform dm (ta_platform a) (st\<lparr>device := d1\<rparr>))
              (st\<lparr>device := dm_wait dm 150 d1\<rparr>) = (Inl e, st2) \<longrightarrow>
            tap_at dm a x y st =
              (Inr (text_response (''Tapped at ('' @ string_of_int x @ '', '' @ string_of_int y @ '')'' @
                      hints_unavailable e)), st2))"
  proof (intro allI impI, elim conjE)
    fix a :: TapArgs and x y u d1
    assume h: "dm_tap dm x y (ta_platform a) (ta_targetPid a) (device st) = (Inr u, d1)"
      "ta_hints a = Some (JBool True)"
    note eq = tap_at_with_hints [OF h]
    have 1: "\<exists>h st'. tap_at dm a x y st =
            (Inr (text_response (''Tapped at ('' @ string_of_int x @ '', '' @ string_of_int y @ '')'' @ h)), st')"
      using eq by blast
    have 2: "tap_at dm a x y st =
              (Inr (text_response (''Tapped at ('' @ string_of_int x @ '', '' @ string_of_int y @ '')'' @
                      hints_unavailable e)), st2)"
      if "hints_capture dm (hints_platform dm (ta_platform a) (st\<lparr>device := d1\<rparr>))
              (st\<lparr>device := dm_wait dm 150 d1\<rparr>) = (Inl e, st2)" for e st2
      using eq generateActionHints_capture_failed [of dm "ta_platform a" "st\<lparr>device := d1\<rparr>" e st2] that
      by simp
    show "(\<exists>h st'. tap_at dm a x y st =
            (Inr (text_response (''Tapped at ('' @ string_of_int x @ '', '' @ string_of_int y @ '')'' @ h)), st')) \<and>
         (\<forall>e st2.
            hints_capture dm (hints_platform dm (ta_platform a) (st\<lparr>device := d1\<rparr>))
              (st\<lparr>device := dm_wait dm 150 d1\<rparr>) = (Inl e, st2) \<longrightarrow>
            tap_at dm a x y st =
              (Inr (text_response (''Tapped at ('' @ string_of_int x @ '', '' @ string_of_int y @ '')'' @
                      hints_unavailable e)), st2))"
      using 1 2 by blast
  qed
next
  show "\<forall>a x y.
         ta_index a = None \<and> \<not> truthy (ta_text a) \<and> \<not> truthy (ta_label a) \<and>
         \<not> truthy (ta_resourceId a) \<and> ta_x a = Some x \<and> ta_y a = Some y \<longrightarrow>
         tap_handler dm a st = tap_at dm a x y st"
    using tap_handler_coordinates [of _ _ _ dm st] by blast
qed

text \<open>
  Claim C8 on a device whose hierarchy cannot be fetched: the tap at (10, 20) with
  \<open>hints = true\<close> still reports the tap, with the reason appended.
\<close>

theorem hints_best_effort_witness:
  "tap_handler dead_ui_device tap_with_hints fresh_state
     = (Inr (text_response (''Tapped at (10, 20)'' @ [CHR 0x0A] @ ''--- Hints ---'' @ [CHR 0x0A] @
               ''Unable to fetch UI state for hints: device offline'')),
        fresh_state\<lparr>device := 1\<rparr>)"
proof -
  note t = hints_best_effort [where dm = dead_ui_device and platform = None and st = fresh_state]
  have c: "hints_capture dead_ui_device (hints_platform dead_ui_device (ta_platform tap_with_hints)
              (fresh_state\<lparr>device := 1\<rparr>)) (fresh_state\<lparr>device := dm_wait dead_ui_device 150 1\<rparr>)
           = (Inl offline_error, fresh_state\<lparr>device := 1\<rparr>)"
    by (simp add: hints_capture_def hints_platform_def fetchElements_def dead_ui_device_def
        tap_with_hints_def fresh_state_def)
  have tp: "dm_tap dead_ui_device 10 20 (ta_platform tap_with_hints) (ta_targetPid tap_with_hints)
              (device fresh_state) = (Inr (), 1)"
    by (simp add: dead_ui_device_def fresh_state_def)
  have hn: "ta_hints tap_with_hints = Some (JBool True)" by (simp add: tap_with_hints_def)
  have "tap_at dead_ui_device tap_with_hints 10 20 fresh_state =
          (Inr (text_response (''Tapped at ('' @ string_of_int 10 @ '', '' @ string_of_int 20 @ '')'' @
                  hints_unavailable offline_error)), fresh_state\<lparr>device := 1\<rparr>)"
    using t [THEN conjunct2, THEN conjunct2, THEN conjunct2, THEN conjunct1, rule_format,
        OF conjI [OF tp hn], THEN conjunct2, rule_format, OF c] .
  moreover have "tap_handler dead_ui_device tap_with_hints fresh_state
                   = tap_at dead_ui_device tap_with_hints 10 20 fresh_state"
    by (rule t [THEN conjunct2, THEN conjunct2, THEN conjunct2, THEN conjunct2, rule_format])
       (simp add: tap_with_hints_def truthy_def)
  moreover have "string_of_int 10 = ''10''" "string_of_int 20 = ''20''"
    by (simp_all add: string_of_int_def string_of_nat.simps [of 10] string_of_nat.simps [of 20]
        string_of_nat_digit)
  ultimately show ?thesis
    by (simp add: hints_unavailable_def hints_header_def offline_error_def)
qed


section \<open>Properties of the diff-mode screenshot\<close>


lemma shot_capture_cache:
  "shot_capture env a st = (r, st1) \<Longrightarrow> lastScreenshotMap st1 = lastScreenshotMap st"
  by (auto simp: shot_capture_def split: prod.splits)

lemma screenshot_handler_diff:
  assumes "sa_diff a = Some (JBool True)" and "shot_capture env a st = (Inr png, st1)"
    and "lastScreenshotMap st (shot_platform env a st) = Some prev"
    and "compareScreenshots env prev png (case sa_diffThreshold a of None \<Rightarrow> 30 | Some t \<Rightarrow> t) = Inr d"
  shows "screenshot_handler env a st =
           (diff_response env a png d,
            st1\<lparr>lastScreenshotMap := (lastScreenshotMap st1)(shot_platform env a st \<mapsto> png)\<rparr>)"
  using assms shot_capture_cache [OF assms(2)]
  by (simp add: screenshot_handler_def Let_def)

text \<open>
  Claim C9. In diff mode, with a capture that succeeded, a cached
  previous capture and a comparison that returned a percentage:
  \<^item> below 5, the response is the text \<open>Screen unchanged\<close> and carries no image, with or
    without a region;
  \<^item> from 5 up to 80 with a region, the image is the encoding of the buffer cropped to
    that region (padded by 20);
  \<^item> at 80 or more, or at 5 or more without a region, the image is the encoding of the
    full frame;
  and the new capture replaces the cached one.
\<close>

theorem diff_mode_tiers:
  assumes "sa_diff a = Some (JBool True)" and "shot_capture env a st = (Inr png, st1)"
    and "lastScreenshotMap st (shot_platform env a st) = Some prev"
    and "compareScreenshots env prev png (case sa_diffThreshold a of None \<Rightarrow> 30 | Some t \<Rightarrow> t) = Inr d"
  shows "(changePercent d < 5 \<longrightarrow>
            fst (screenshot_handler env a st) =
              Inr (text_response (''Screen unchanged ('' @ show_number env (changePercent d) @ ''% diff)'')))
       \<and> (5 \<le> changePercent d \<and> changePercent d < 80 \<longrightarrow>
            (\<forall>region. changedRegion d = Some region \<longrightarrow>
               fst (screenshot_handler env a st) =
                 (case cropRegion env png region 20 of
                    Inl e \<Rightarrow> Inl e
                  | Inr croppedBuffer \<Rightarrow>
                      image_response env a croppedBuffer
                        (Some (''Changed region ('' @ show_number env (changePercent d) @ ''% diff) at ('' @
                               string_of_int (reg_x region) @ '', '' @ string_of_int (reg_y region) @ '') '' @
                               string_of_int (reg_width region) @ ''x'' @
                               string_of_int (reg_height region))))))
       \<and> (80 \<le> changePercent d \<or> 5 \<le> changePercent d \<and> changedRegion d = None \<longrightarrow>
            fst (screenshot_handler env a st) =
              image_response env a png
                (Some (''Screen changed significantly ('' @ show_number env (changePercent d) @
                       ''% diff) '' @ em_dash @ '' full screenshot'')))
       \<and> lastScreenshotMap (snd (screenshot_handler env a st)) (shot_platform env a st) = Some png"
  unfolding screenshot_handler_diff [OF assms]
  by (auto simp: diff_response_def split: sum.splits)

text \<open>Claim C9 on two different frames, 50 percent apart: the cropped region is returned.\<close>

theorem diff_mode_tiers_witness:
  "fst (screenshot_handler demo_shot_env diff_args (shot_state_of ''frame-one'' [''frame-two'']))
     = Inr (Response (Some ''Changed region (50% diff) at (1, 2) 3x4'') (Some (''frame'', ''image/jpeg'')))"
proof -
  have cap: "shot_capture demo_shot_env diff_args (shot_state_of ''frame-one'' [''frame-two''])
               = (Inr ''frame-two'', shot_state_of ''frame-one'' [])"
    by (simp add: shot_capture_def shot_platform_def demo_shot_env_def diff_args_def shot_state_of_def)
  have dm: "sa_diff diff_args = Some (JBool True)" by (simp add: diff_args_def)
  have pv: "lastScreenshotMap (shot_state_of ''frame-one'' [''frame-two''])
              (shot_platform demo_shot_env diff_args (shot_state_of ''frame-one'' [''frame-two'']))
            = Some ''frame-one''"
    by (simp add: shot_platform_def demo_shot_env_def diff_args_def shot_state_of_def)
  have cmp: "compareScreenshots demo_shot_env ''frame-one'' ''frame-two''
               (case sa_diffThreshold diff_args of None \<Rightarrow> 30 | Some t \<Rightarrow> t)
             = Inr \<lparr>changePercent = 50, changedRegion = Some demo_region\<rparr>"
    by (simp add: demo_shot_env_def diff_args_def)
  have digits: "string_of_int 1 = ''1''" "string_of_int 2 = ''2''" "string_of_int 3 = ''3''"
      "string_of_int 4 = ''4''"
    by (simp_all add: string_of_int_def string_of_nat_digit)
  from diff_mode_tiers [OF dm cap pv cmp, THEN conjunct2, THEN conjunct1]
  show ?thesis
    by (simp add: demo_shot_env_def demo_region_def image_response_def encode_image_def diff_args_def
        digits)
qed

section \<open>Backend failures and missing elements in a flow\<close>

text \<open>
  Claim C3 does not hold of the code. The capture of the exit predicate throws a
  \<open>DeviceOfflineError\<close>; the inner \<open>catch\<close> throws it again, and the throw lands in the
  \<open>catch\<close> of the step. With \<open>on_error = retry\<close> the step is attempted on the dead backend
  ten times, its last failure is recorded as the result of the step, and the flow goes on
  to the next step. With \<open>on_error = skip\<close> the failure is recorded as the result of the
  step after one attempt and the flow goes on to the next step. In both runs the handler
  returns its ordinary report.
\<close>

theorem backend_unavailable_handled_by_step_catch:
  "is_backend_unavailable offline_error
   \<and> run_flow (demo_ctx [] (Inl offline_error))
         (flow_of [until_done_step ''retry'', plain_step ''wait'' []]) 0 (0, [])
       = (Inr (FlowReport
                 [\<lparr>r_step = 1, r_action = ''tap'', r_label = None, r_success = False,
                    r_message = ''device offline'', r_durationMs = 0\<rparr>,
                  \<lparr>r_step = 2, r_action = ''wait'', r_label = None, r_success = True,
                    r_message = ''ok'', r_durationMs = 0\<rparr>] 0),
          (11, replicate 10 (Call Attempt ''tap'' [(''text'', JStr ''Next''), (''platform'', JStr ''android'')] 1)
               @ [Call Attempt ''wait'' [(''platform'', JStr ''android'')] 1]))
   \<and> run_flow (demo_ctx [] (Inl offline_error))
         (flow_of [until_done_step ''skip'', plain_step ''wait'' []]) 0 (0, [])
       = (Inr (FlowReport
                 [\<lparr>r_step = 1, r_action = ''tap'', r_label = None, r_success = False,
                    r_message = ''device offline'', r_durationMs = 0\<rparr>,
                  \<lparr>r_step = 2, r_action = ''wait'', r_label = None, r_success = True,
                    r_message = ''ok'', r_durationMs = 0\<rparr>] 0),
          (2, [Call Attempt ''tap'' [(''text'', JStr ''Next''), (''platform'', JStr ''android'')] 1,
               Call Attempt ''wait'' [(''platform'', JStr ''android'')] 1]))"
  by (simp add: flow_eval until_done_step_def offline_error_def eval_nat_numeral)

lemmas wiring_eval = cancel_ctx_def createToolContext_def cancel_registry_def registerTools_def
  empty_registry_def tap_tool_def handleTool_def getHandler_def tap_handler_def tap_args_of_def
  arg_string_def arg_number_def tap_by_index_def tap_by_text_def tap_at_def fetchElements_def
  setCachedElements_def cancel_device_def dead_ui_device_def cancel_button_def fresh_state_def
  submit_step_def Let_def string_of_int_def string_of_nat_digit

text \<open>
  Claim C5 does not hold of the code on the scenario of the specification. On a screen
  without \<open>Submit\<close> the tap tool returns the text \<open>Element not found: Submit\<close> and does not
  throw, so the \<open>catch\<close> of the step, where \<open>if_not_found\<close> is read, is never entered. With
  \<open>if_not_found = skip\<close> the step is recorded as a success with that text as its message,
  not as skipped, and the flow goes on to the next step. With \<open>if_not_found = scroll_down\<close>
  the result is the same, and the only call is the one attempt: no swipe, no retry.
\<close>

theorem not_found_text_bypasses_fallback:
  "fst (run_flow cancel_ctx
          (flow_of [submit_step ''skip'', plain_step ''tap'' [(''x'', JNum 1), (''y'', JNum 2)]]) 0
          ((fresh_state, []), []))
     = Inr (FlowReport
              [\<lparr>r_step = 1, r_action = ''tap'', r_label = None, r_success = True,
                 r_message = ''Element not found: Submit'', r_durationMs = 0\<rparr>,
               \<lparr>r_step = 2, r_action = ''tap'', r_label = None, r_success = True,
                 r_message = ''Tapped at (1, 2)'', r_durationMs = 0\<rparr>] 0)
   \<and> fst (run_flow cancel_ctx (flow_of [submit_step ''scroll_down'']) 0 ((fresh_state, []), []))
     = Inr (FlowReport
              [\<lparr>r_step = 1, r_action = ''tap'', r_label = None, r_success = True,
                 r_message = ''Element not found: Submit'', r_durationMs = 0\<rparr>] 0)
   \<and> snd (snd (run_flow cancel_ctx (flow_of [submit_step ''scroll_down'']) 0 ((fresh_state, []), [])))
     = [Call Attempt ''tap'' [(''text'', JStr ''Submit''), (''platform'', JStr ''android'')] 1]"
  by (simp add: flow_eval wiring_eval)

end
